theory Spec2Isabelle
  imports Main "HOL-Library.AList"
begin

section \<open>Python values\<close>

text \<open>
  The bodies exchanged with the remote service and with the caller are JSON documents;
  after \<^verbatim>\<open>response.json()\<close> and \<^verbatim>\<open>req.get_json()\<close> they are Python
  objects. \<open>JNull\<close> is \<^verbatim>\<open>None\<close>, \<open>JObj\<close> is a \<^verbatim>\<open>dict\<close> in insertion order
  (a parsed document has each key once; lookups read the first binding), \<open>JArr\<close> is a
  \<^verbatim>\<open>list\<close>. Numbers with a fraction are left out: on every path below they behave as
  \<open>JInt\<close> does (not a dict, not iterable, not a string, no length).
  Strings are sequences of characters below 256; route parameters and messages are ASCII.
\<close>

datatype json =
    JNull
  | JBool bool
  | JInt int
  | JStr string
  | JArr "json list"
  | JObj "(string \<times> json) list"

text \<open>Truth value of an object, as \<^verbatim>\<open>if x:\<close> and \<^verbatim>\<open>not x\<close> read it.\<close>

fun truthy :: "json \<Rightarrow> bool" where
  "truthy JNull = False"
| "truthy (JBool b) = b"
| "truthy (JInt i) = (i \<noteq> 0)"
| "truthy (JStr s) = (s \<noteq> [])"
| "truthy (JArr xs) = (xs \<noteq> [])"
| "truthy (JObj d) = (d \<noteq> [])"

subsection \<open>Outbound requests and exceptions\<close>

text \<open>
  A request of the pooled \<^verbatim>\<open>httpx.AsyncClient\<close>: method, path below the client's
  base URL, and the JSON payload if there is one.
\<close>

datatype http_request = Request (verb: string) (path: string) (payload: "json option")

text \<open>
  Every \<^verbatim>\<open>raise\<close> of the source and of the operations it calls is a value.
  \<open>ValueError m\<close> is \<^verbatim>\<open>raise ValueError(m)\<close> written in the source;
  \<open>NotAMember v\<close> is the \<^verbatim>\<open>ValueError\<close> of \<^verbatim>\<open>StatementState(v)\<close> for a value that is
  no member; \<open>AttributeError v a\<close> is the access \<^verbatim>\<open>v.a\<close> on an object without that
  attribute; \<open>TypeError op v\<close> is the operation \<open>op\<close> (\<^verbatim>\<open>in\<close>, subscript, iteration,
  \<^verbatim>\<open>len\<close>, \<^verbatim>\<open>int\<close>) applied to an object that does not support it;
  \<open>HTTPStatusError\<close> is raised by \<^verbatim>\<open>raise_for_status()\<close>; \<open>RequestError\<close> is a request
  that got no response and \<open>JSONDecodeError\<close> a response body that is not JSON, both
  with the text the library gives them.
\<close>

datatype exn =
    ValueError string
  | NotAMember json
  | KeyError string
  | AttributeError json string
  | TypeError string json
  | HTTPStatusError nat http_request
  | RequestError string
  | JSONDecodeError string

definition andThen :: "exn + 'a \<Rightarrow> ('a \<Rightarrow> exn + 'b) \<Rightarrow> exn + 'b" where
  "andThen x f = (case x of Inl e \<Rightarrow> Inl e | Inr v \<Rightarrow> f v)"

subsection \<open>Operations on objects\<close>

text \<open>\<^verbatim>\<open>v.get(k, default)\<close>: only a dict has the method.\<close>

definition py_get :: "json \<Rightarrow> string \<Rightarrow> json \<Rightarrow> exn + json" where
  "py_get v k dflt =
     (case v of
        JObj d \<Rightarrow> Inr (case map_of d k of None \<Rightarrow> dflt | Some x \<Rightarrow> x)
      | _ \<Rightarrow> Inl (AttributeError v ''get''))"

text \<open>\<^verbatim>\<open>v[k]\<close> for a string key.\<close>

definition py_getitem :: "json \<Rightarrow> string \<Rightarrow> exn + json" where
  "py_getitem v k =
     (case v of
        JObj d \<Rightarrow> (case map_of d k of None \<Rightarrow> Inl (KeyError k) | Some x \<Rightarrow> Inr x)
      | _ \<Rightarrow> Inl (TypeError ''getitem'' v))"

fun starts_with :: "string \<Rightarrow> string \<Rightarrow> bool" where
  "starts_with s [] = True"
| "starts_with [] (p # ps) = False"
| "starts_with (c # cs) (p # ps) = (c = p \<and> starts_with cs ps)"

text \<open>\<^verbatim>\<open>sub in s\<close> for two strings.\<close>

fun contains :: "string \<Rightarrow> string \<Rightarrow> bool" where
  "contains [] sub = (sub = [])"
| "contains (c # cs) sub = (starts_with (c # cs) sub \<or> contains cs sub)"

text \<open>
  \<^verbatim>\<open>k in v\<close> for a string \<open>k\<close>: key membership for a dict, substring for a string,
  element membership for a list, \<^verbatim>\<open>TypeError\<close> otherwise.
\<close>

definition py_in :: "string \<Rightarrow> json \<Rightarrow> exn + bool" where
  "py_in k v =
     (case v of
        JObj d \<Rightarrow> Inr (map_of d k \<noteq> None)
      | JStr s \<Rightarrow> Inr (contains s k)
      | JArr xs \<Rightarrow> Inr (List.member xs (JStr k))
      | _ \<Rightarrow> Inl (TypeError ''in'' v))"

text \<open>
  The elements a \<^verbatim>\<open>for\<close> loop runs over: the items of a list, the keys of a dict,
  the characters of a string.
\<close>

definition py_iter :: "json \<Rightarrow> exn + json list" where
  "py_iter v =
     (case v of
        JArr xs \<Rightarrow> Inr xs
      | JObj d \<Rightarrow> Inr (map (\<lambda>kv. JStr (fst kv)) d)
      | JStr s \<Rightarrow> Inr (map (\<lambda>c. JStr [c]) s)
      | _ \<Rightarrow> Inl (TypeError ''iter'' v))"

text \<open>\<^verbatim>\<open>len(v)\<close>.\<close>

definition py_len :: "json \<Rightarrow> exn + nat" where
  "py_len v =
     (case v of
        JArr xs \<Rightarrow> Inr (length xs)
      | JObj d \<Rightarrow> Inr (length d)
      | JStr s \<Rightarrow> Inr (length s)
      | _ \<Rightarrow> Inl (TypeError ''len'' v))"

text \<open>\<^verbatim>\<open>d[k] = v\<close> on a dict held in insertion order.\<close>

definition dict_set :: "(string \<times> json) list \<Rightarrow> string \<Rightarrow> json \<Rightarrow> (string \<times> json) list" where
  "dict_set d k v = AList.update k v d"

section \<open>The Execution Client (databricks\_client.py)\<close>

datatype StatementState = PENDING | RUNNING | SUCCEEDED | FAILED | CANCELED | CLOSED

fun state_value :: "StatementState \<Rightarrow> string" where
  "state_value PENDING = ''PENDING''"
| "state_value RUNNING = ''RUNNING''"
| "state_value SUCCEEDED = ''SUCCEEDED''"
| "state_value FAILED = ''FAILED''"
| "state_value CANCELED = ''CANCELED''"
| "state_value CLOSED = ''CLOSED''"

text \<open>
  \<^verbatim>\<open>StatementState(v)\<close>: the member whose value equals \<open>v\<close>, else \<^verbatim>\<open>ValueError\<close>.
  Only the six strings, in exactly this spelling, are values of a member.
\<close>

definition StatementState_of :: "json \<Rightarrow> exn + StatementState" where
  "StatementState_of v =
     (case v of
        JStr s \<Rightarrow>
          (if s = ''PENDING'' then Inr PENDING
           else if s = ''RUNNING'' then Inr RUNNING
           else if s = ''SUCCEEDED'' then Inr SUCCEEDED
           else if s = ''FAILED'' then Inr FAILED
           else if s = ''CANCELED'' then Inr CANCELED
           else if s = ''CLOSED'' then Inr CLOSED
           else Inl (NotAMember v))
      | _ \<Rightarrow> Inl (NotAMember v))"

text \<open>
  The dataclass \<^verbatim>\<open>StatementResult\<close>. A field annotated \<^verbatim>\<open>T | None\<close> holds \<open>JNull\<close>
  for \<^verbatim>\<open>None\<close>; the annotations are not enforced, so a field holds whatever object the
  response carried.
\<close>

record StatementResult =
  statement_id :: json
  state :: StatementState
  total_chunk_count :: json
  total_row_count :: json
  columns :: json
  data :: json
  chunk_index :: json
  error_message :: json

text \<open>
  One element of the list comprehension over the schema's columns:
  \<^verbatim>\<open>{"name": c["name"], "type": c.get("type_name", "string")}\<close>.
\<close>

definition column_entry :: "json \<Rightarrow> exn + json" where
  "column_entry c =
     andThen (py_getitem c ''name'') (\<lambda>n.
     andThen (py_get c ''type_name'' (JStr ''string'')) (\<lambda>t.
     Inr (JObj [(''name'', n), (''type'', t)])))"

fun column_entries :: "json list \<Rightarrow> exn + json list" where
  "column_entries [] = Inr []"
| "column_entries (c # cs) =
     (case column_entry c of
        Inl e \<Rightarrow> Inl e
      | Inr x \<Rightarrow> (case column_entries cs of Inl e \<Rightarrow> Inl e | Inr xs \<Rightarrow> Inr (x # xs)))"

text \<open>
  \<^verbatim>\<open>columns = None; if "schema" in manifest: columns = [... for c in
  manifest["schema"].get("columns", [])]\<close>
\<close>

definition parse_columns :: "json \<Rightarrow> exn + json" where
  "parse_columns manifest =
     andThen (py_in ''schema'' manifest) (\<lambda>has_schema.
       if \<not> has_schema then Inr JNull
       else
         andThen (py_getitem manifest ''schema'') (\<lambda>schema.
         andThen (py_get schema ''columns'' (JArr [])) (\<lambda>cols.
         andThen (py_iter cols) (\<lambda>cs.
         andThen (column_entries cs) (\<lambda>xs. Inr (JArr xs))))))"

text \<open>
  \<^verbatim>\<open>error_msg = None; if state == StatementState.FAILED: error_msg =
  status.get("error", {}).get("message", "Unknown error")\<close>
\<close>

definition parse_error_msg :: "json \<Rightarrow> StatementState \<Rightarrow> exn + json" where
  "parse_error_msg status st =
     (if st = FAILED then
        andThen (py_get status ''error'' (JObj [])) (\<lambda>err.
          py_get err ''message'' (JStr ''Unknown error''))
      else Inr JNull)"

text \<open>
  \<^verbatim>\<open>DatabricksClient._parse_statement_response\<close>, statement by statement, the
  arguments of the final constructor call in the order they are written.
\<close>

definition parse_statement_response :: "json \<Rightarrow> exn + StatementResult" where
  "parse_statement_response body =
     andThen (py_get body ''status'' (JObj [])) (\<lambda>status.
     andThen (py_get status ''state'' (JStr ''PENDING'')) (\<lambda>sv.
     andThen (StatementState_of sv) (\<lambda>st.
     andThen (py_get body ''manifest'' (JObj [])) (\<lambda>manifest.
     andThen (py_get body ''result'' (JObj [])) (\<lambda>result.
     andThen (parse_error_msg status st) (\<lambda>error_msg.
     andThen (parse_columns manifest) (\<lambda>cols.
     andThen (py_get body ''statement_id'' (JStr [])) (\<lambda>sid.
     andThen (py_get manifest ''total_chunk_count'' JNull) (\<lambda>tcc.
     andThen (py_get manifest ''total_row_count'' JNull) (\<lambda>trc.
     andThen (py_get result ''data_array'' JNull) (\<lambda>da.
     andThen (py_get result ''chunk_index'' JNull) (\<lambda>ci.
     Inr \<lparr>statement_id = sid, state = st, total_chunk_count = tcc,
          total_row_count = trc, columns = cols, data = da, chunk_index = ci,
          error_message = error_msg\<rparr>))))))))))))"

subsection \<open>The world outside the process\<close>

text \<open>
  What a request to the remote service comes back with: a response (status code, and
  the body either as the JSON it holds or, when it is not JSON, the text of the decoding
  error), or no response at all (connection refused, timeout), with the text of the
  exception the client library raises.
\<close>

datatype outcome = Response nat "string + json" | NoResponse string

text \<open>
  \<open>environ\<close> is \<^verbatim>\<open>os.environ\<close>; \<open>remote\<close> answers an outbound request;
  \<open>exn_text\<close> is \<^verbatim>\<open>str(e)\<close> for the exceptions raised by Python and by httpx
  themselves, whose wording is theirs; \<open>value_text\<close> is \<^verbatim>\<open>str(v)\<close> for an object
  that is not a string.
\<close>

record world =
  environ :: "string \<rightharpoonup> string"
  remote :: "http_request \<Rightarrow> outcome"
  exn_text :: "exn \<Rightarrow> string"
  value_text :: "json \<Rightarrow> string"

text \<open>\<^verbatim>\<open>str(e)\<close>: an exception built from one message prints that message.\<close>

fun str_exn :: "world \<Rightarrow> exn \<Rightarrow> string" where
  "str_exn w (ValueError m) = m"
| "str_exn w (RequestError m) = m"
| "str_exn w (JSONDecodeError m) = m"
| "str_exn w e = exn_text w e"

definition py_str :: "world \<Rightarrow> json \<Rightarrow> string" where
  "py_str w v = (case v of JStr s \<Rightarrow> s | _ \<Rightarrow> value_text w v)"

text \<open>Decimal text of an integer, as an f-string prints it.\<close>

definition digit_char :: "nat \<Rightarrow> char" where
  "digit_char n = char_of (48 + n)"

fun str_nat :: "nat \<Rightarrow> string" where
  "str_nat n = (if n < 10 then [digit_char n] else str_nat (n div 10) @ [digit_char (n mod 10)])"

declare str_nat.simps [simp del]

definition str_int :: "int \<Rightarrow> string" where
  "str_int i = (if i < 0 then CHR ''-'' # str_nat (nat (- i)) else str_nat (nat i))"

subsection \<open>Construction of the client\<close>

record DatabricksClient =
  host :: string
  token :: string
  warehouse_id :: string

definition rstrip_slash :: "string \<Rightarrow> string" where
  "rstrip_slash s = rev (dropWhile (\<lambda>c. c = CHR ''/'') (rev s))"

text \<open>\<^verbatim>\<open>a or b\<close> for \<^verbatim>\<open>a: str | None\<close>.\<close>

definition or_else :: "string option \<Rightarrow> string \<Rightarrow> string" where
  "or_else a b = (case a of None \<Rightarrow> b | Some s \<Rightarrow> if s \<noteq> [] then s else b)"

definition environ_get :: "world \<Rightarrow> string \<Rightarrow> string \<Rightarrow> string" where
  "environ_get w k dflt = (case environ w k of None \<Rightarrow> dflt | Some v \<Rightarrow> v)"

definition missing_config_message :: string where
  "missing_config_message =
     ''Missing Databricks config. Set DATABRICKS_HOST, DATABRICKS_TOKEN, '' @
     ''and DATABRICKS_WAREHOUSE_ID environment variables.''"

text \<open>
  \<^verbatim>\<open>DatabricksClient.__init__(host, token, warehouse_id)\<close>. The pool it then builds
  (timeouts, connection limits) has no part in what follows.
\<close>

definition DatabricksClient_init ::
  "world \<Rightarrow> string option \<Rightarrow> string option \<Rightarrow> string option \<Rightarrow> exn + DatabricksClient" where
  "DatabricksClient_init w host_arg token_arg warehouse_arg =
     (let h = rstrip_slash (or_else host_arg (environ_get w ''DATABRICKS_HOST'' []));
          t = or_else token_arg (environ_get w ''DATABRICKS_TOKEN'' []);
          i = or_else warehouse_arg (environ_get w ''DATABRICKS_WAREHOUSE_ID'' [])
      in if h \<noteq> [] \<and> t \<noteq> [] \<and> i \<noteq> []
         then Inr \<lparr>host = h, token = t, warehouse_id = i\<rparr>
         else Inl (ValueError missing_config_message))"

text \<open>
  \<^verbatim>\<open>get_databricks_client()\<close>: the module-level \<^verbatim>\<open>_client\<close> is the state; it
  starts as \<^verbatim>\<open>None\<close> and is assigned only when the constructor returns.
\<close>

definition get_databricks_client ::
  "world \<Rightarrow> DatabricksClient option \<Rightarrow> DatabricksClient option \<times> (exn + DatabricksClient)" where
  "get_databricks_client w g =
     (case g of
        Some c \<Rightarrow> (g, Inr c)
      | None \<Rightarrow>
          (case DatabricksClient_init w None None None of
             Inl e \<Rightarrow> (None, Inl e)
           | Inr c \<Rightarrow> (Some c, Inr c)))"

subsection \<open>The four operations\<close>

definition send :: "world \<Rightarrow> http_request \<Rightarrow> exn + nat \<times> (string + json)" where
  "send w rq =
     (case remote w rq of
        NoResponse m \<Rightarrow> Inl (RequestError m)
      | Response code content \<Rightarrow> Inr (code, content))"

text \<open>\<^verbatim>\<open>response.raise_for_status()\<close> of httpx: every status outside 2xx raises.\<close>

definition raise_for_status :: "http_request \<Rightarrow> nat \<Rightarrow> exn + unit" where
  "raise_for_status rq code =
     (if 200 \<le> code \<and> code < 300 then Inr () else Inl (HTTPStatusError code rq))"

definition response_json :: "string + json \<Rightarrow> exn + json" where
  "response_json content = (case content of Inl m \<Rightarrow> Inl (JSONDecodeError m) | Inr v \<Rightarrow> Inr v)"

text \<open>The request, \<^verbatim>\<open>raise_for_status()\<close> and \<^verbatim>\<open>response.json()\<close>, in this order.\<close>

definition fetch_json :: "world \<Rightarrow> http_request \<Rightarrow> exn + json" where
  "fetch_json w rq =
     andThen (send w rq) (\<lambda>r.
     andThen (raise_for_status rq (fst r)) (\<lambda>_.
     response_json (snd r)))"

text \<open>
  \<^verbatim>\<open>if parameters: payload["parameters"] = [{"name": k, "value": str(v)} for k, v in
  parameters.items()]\<close>
\<close>

definition statement_parameters :: "world \<Rightarrow> json \<Rightarrow> exn + json option" where
  "statement_parameters w parameters =
     (if truthy parameters then
        (case parameters of
           JObj d \<Rightarrow>
             Inr (Some (JArr (map (\<lambda>kv. JObj [(''name'', JStr (fst kv)),
                                             (''value'', JStr (py_str w (snd kv)))]) d)))
         | _ \<Rightarrow> Inl (AttributeError parameters ''items''))
      else Inr None)"

text \<open>
  Each operation returns the requests it sent, in order, beside its result or exception.
\<close>

definition execute_statement ::
  "world \<Rightarrow> DatabricksClient \<Rightarrow> json \<Rightarrow> json \<Rightarrow> string \<Rightarrow> string
     \<Rightarrow> http_request list \<times> (exn + StatementResult)" where
  "execute_statement w c statement parameters wait_timeout result_format =
     (case statement_parameters w parameters of
        Inl e \<Rightarrow> ([], Inl e)
      | Inr ps \<Rightarrow>
          (let base = [(''warehouse_id'', JStr (warehouse_id c)),
                       (''statement'', statement),
                       (''wait_timeout'', JStr wait_timeout),
                       (''on_wait_timeout'', JStr ''CONTINUE''),
                       (''format'', JStr result_format)];
               pl = (case ps of None \<Rightarrow> base | Some p \<Rightarrow> dict_set base ''parameters'' p);
               rq = Request ''POST'' ''/api/2.0/sql/statements'' (Some (JObj pl))
           in ([rq], andThen (fetch_json w rq) parse_statement_response)))"

definition get_statement_status ::
  "world \<Rightarrow> DatabricksClient \<Rightarrow> string \<Rightarrow> http_request list \<times> (exn + StatementResult)" where
  "get_statement_status w c sid =
     (let rq = Request ''GET'' (''/api/2.0/sql/statements/'' @ sid) None
      in ([rq], andThen (fetch_json w rq) parse_statement_response))"

definition client_get_chunk ::
  "world \<Rightarrow> DatabricksClient \<Rightarrow> string \<Rightarrow> int \<Rightarrow> http_request list \<times> (exn + StatementResult)" where
  "client_get_chunk w c sid idx =
     (let rq = Request ''GET''
                 (''/api/2.0/sql/statements/'' @ sid @ ''/result/chunks/'' @ str_int idx) None
      in ([rq],
          andThen (fetch_json w rq) (\<lambda>body.
          andThen (py_get body ''chunk_index'' JNull) (\<lambda>ci.
          andThen (py_get body ''data_array'' JNull) (\<lambda>da.
          Inr \<lparr>statement_id = JStr sid, state = SUCCEEDED, total_chunk_count = JNull,
               total_row_count = JNull, columns = JNull, data = da, chunk_index = ci,
               error_message = JNull\<rparr>)))))"

definition cancel_statement ::
  "world \<Rightarrow> DatabricksClient \<Rightarrow> string \<Rightarrow> http_request list \<times> (exn + bool)" where
  "cancel_statement w c sid =
     (let rq = Request ''POST'' (''/api/2.0/sql/statements/'' @ sid @ ''/cancel'') None
      in ([rq], andThen (send w rq) (\<lambda>r. Inr (fst r = 200))))"

section \<open>The Request Router (function\_app.py)\<close>

datatype HTTPStatus = OK | ACCEPTED | BAD_REQUEST | GONE | INTERNAL_SERVER_ERROR

fun status_value :: "HTTPStatus \<Rightarrow> nat" where
  "status_value OK = 200"
| "status_value ACCEPTED = 202"
| "status_value BAD_REQUEST = 400"
| "status_value GONE = 410"
| "status_value INTERNAL_SERVER_ERROR = 500"

definition STATE_TO_HTTP :: "StatementState \<rightharpoonup> HTTPStatus" where
  "STATE_TO_HTTP =
     map_of [(PENDING, ACCEPTED), (RUNNING, ACCEPTED), (SUCCEEDED, OK),
             (FAILED, INTERNAL_SERVER_ERROR), (CANCELED, GONE), (CLOSED, GONE)]"

text \<open>
  An inbound request: \<open>req_json\<close> is what \<^verbatim>\<open>req.get_json()\<close> returns, \<open>None\<close> when
  it raises \<^verbatim>\<open>ValueError\<close> (the body is not JSON); \<open>route_params\<close> are the segments
  bound by the route. A response is its status code and the object given to
  \<^verbatim>\<open>json.dumps\<close>, which prints the keys in insertion order.
\<close>

record HttpRequest =
  req_json :: "json option"
  route_params :: "string \<rightharpoonup> string"

record HttpResponse =
  status_code :: nat
  body :: json

definition json_response :: "(string \<times> json) list \<Rightarrow> HTTPStatus \<Rightarrow> HttpResponse" where
  "json_response d status = \<lparr>status_code = status_value status, body = JObj d\<rparr>"

definition error_response :: "string \<Rightarrow> HTTPStatus \<Rightarrow> HttpResponse" where
  "error_response message status = json_response [(''error'', JStr message)] status"

text \<open>
  What one call of a handler leaves behind: the module's \<^verbatim>\<open>_client\<close> afterwards,
  the requests sent to the remote service, and the response returned, or the exception
  that leaves the handler.
\<close>

record run =
  singleton :: "DatabricksClient option"
  sent :: "http_request list"
  returned :: "exn + HttpResponse"

text \<open>\<^verbatim>\<open>except Exception as e: return error_response(str(e), INTERNAL_SERVER_ERROR)\<close>\<close>

definition server_error :: "world \<Rightarrow> exn \<Rightarrow> HttpResponse" where
  "server_error w e = error_response (str_exn w e) INTERNAL_SERVER_ERROR"

subsection \<open>POST /api/query/execute\<close>

text \<open>The part of \<^verbatim>\<open>execute_query\<close> after the client has returned \<open>result\<close>.\<close>

definition execute_response :: "StatementResult \<Rightarrow> exn + HttpResponse" where
  "execute_response result =
     (let http_status = (case STATE_TO_HTTP (state result) of None \<Rightarrow> OK | Some s \<Rightarrow> s);
          d0 = [(''statementId'', statement_id result),
                (''state'', JStr (state_value (state result)))]
      in if state result = FAILED then
           Inr (json_response (dict_set d0 ''error'' (error_message result))
                  INTERNAL_SERVER_ERROR)
         else
           (let d1 = (if total_chunk_count result \<noteq> JNull
                      then dict_set d0 ''totalChunks'' (total_chunk_count result) else d0);
                d2 = (if total_row_count result \<noteq> JNull
                      then dict_set d1 ''totalRows'' (total_row_count result) else d1);
                d3 = (if truthy (columns result)
                      then dict_set d2 ''columns'' (columns result) else d2)
            in if data result \<noteq> JNull \<and> state result = SUCCEEDED then
                 andThen (py_len (data result)) (\<lambda>n.
                   Inr (json_response
                          (dict_set d3 ''firstChunk''
                             (JObj [(''chunkIndex'', JInt 0),
                                    (''rowCount'', JInt (int n)),
                                    (''data'', data result)]))
                          http_status))
               else Inr (json_response d3 http_status)))"

definition execute_query :: "world \<Rightarrow> DatabricksClient option \<Rightarrow> HttpRequest \<Rightarrow> run" where
  "execute_query w g req =
     (case req_json req of
        None \<Rightarrow>
          \<lparr>singleton = g, sent = [],
           returned = Inr (error_response ''Invalid JSON body'' BAD_REQUEST)\<rparr>
      | Some b \<Rightarrow>
          (case py_get b ''statement'' JNull of
             Inl e \<Rightarrow> \<lparr>singleton = g, sent = [], returned = Inl e\<rparr>
           | Inr statement \<Rightarrow>
               if \<not> truthy statement then
                 \<lparr>singleton = g, sent = [],
                  returned = Inr (error_response ''Missing 'statement' field'' BAD_REQUEST)\<rparr>
               else
                 (case py_get b ''parameters'' JNull of
                    Inl e \<Rightarrow> \<lparr>singleton = g, sent = [], returned = Inl e\<rparr>
                  | Inr parameters \<Rightarrow>
                      (case get_databricks_client w g of
                         (g', Inl e) \<Rightarrow>
                           \<lparr>singleton = g', sent = [], returned = Inr (server_error w e)\<rparr>
                       | (g', Inr c) \<Rightarrow>
                           (case execute_statement w c statement parameters
                                   ''50s'' ''JSON_ARRAY'' of
                              (rqs, r) \<Rightarrow>
                                \<lparr>singleton = g', sent = rqs,
                                 returned =
                                   Inr (case andThen r execute_response of
                                          Inl e \<Rightarrow> server_error w e
                                        | Inr resp \<Rightarrow> resp)\<rparr>)))))"

subsection \<open>GET /api/query/chunk/\{statementId\}/\{chunkIndex\}\<close>

text \<open>
  \<^verbatim>\<open>int(s)\<close> for a string of characters below 256: the whitespace around the number
  is dropped (tab to carriage return, space, and the two spaces above 127, U+0085 and
  U+00A0; the separators U+001C to U+001F are not whitespace here), one sign is allowed,
  then decimal digits, where single underscores may stand between two digits. A number
  of more than \<^verbatim>\<open>sys.int_max_str_digits\<close> digits (4300 unless the interpreter is
  configured otherwise; leading zeros count, underscores do not) is refused with
  \<^verbatim>\<open>ValueError\<close> like any other unparseable text.
\<close>

definition is_space :: "char \<Rightarrow> bool" where
  "is_space c = (let n = (of_char c :: nat) in (9 \<le> n \<and> n \<le> 13) \<or> n = 32 \<or> n = 133 \<or> n = 160)"

definition int_max_str_digits :: nat where
  "int_max_str_digits = 4300"

definition is_digit :: "char \<Rightarrow> bool" where
  "is_digit c = (let n = (of_char c :: nat) in 48 \<le> n \<and> n \<le> 57)"

definition digit_val :: "char \<Rightarrow> nat" where
  "digit_val c = of_char c - 48"

definition strip :: "string \<Rightarrow> string" where
  "strip s = rev (dropWhile is_space (rev (dropWhile is_space s)))"

fun digits_value :: "nat \<Rightarrow> string \<Rightarrow> nat option" where
  "digits_value acc [] = Some acc"
| "digits_value acc [c] = (if is_digit c then Some (10 * acc + digit_val c) else None)"
| "digits_value acc (c # d # ds) =
     (if is_digit c then digits_value (10 * acc + digit_val c) (d # ds)
      else if c = CHR ''_'' \<and> is_digit d then digits_value (10 * acc + digit_val d) ds
      else None)"

definition py_int :: "string \<Rightarrow> int option" where
  "py_int s =
     (let t = strip s;
          neg = (case t of [] \<Rightarrow> False | c # _ \<Rightarrow> c = CHR ''-'');
          u = (case t of [] \<Rightarrow> [] | c # r \<Rightarrow> if c = CHR ''-'' \<or> c = CHR ''+'' then r else t)
      in case u of
           [] \<Rightarrow> None
         | c # r \<Rightarrow>
             if is_digit c \<and> length (filter is_digit u) \<le> int_max_str_digits
             then map_option (\<lambda>n. if neg then - int n else int n) (digits_value (digit_val c) r)
             else None)"

text \<open>\<^verbatim>\<open>s.lower()\<close> on characters below 256.\<close>

definition lower_char :: "char \<Rightarrow> char" where
  "lower_char c =
     (let n = (of_char c :: nat)
      in if (65 \<le> n \<and> n \<le> 90) \<or> (192 \<le> n \<and> n \<le> 222 \<and> n \<noteq> 215)
         then char_of (n + 32) else c)"

definition lower :: "string \<Rightarrow> string" where
  "lower s = map lower_char s"

text \<open>The body of the \<^verbatim>\<open>try\<close> after the client has returned \<open>result\<close>.\<close>

definition chunk_response :: "StatementResult \<Rightarrow> exn + HttpResponse" where
  "chunk_response result =
     andThen (if truthy (data result) then py_len (data result) else Inr 0) (\<lambda>n.
       Inr (json_response [(''chunkIndex'', chunk_index result),
                           (''rowCount'', JInt (int n)),
                           (''data'', data result)] OK))"

text \<open>The \<^verbatim>\<open>except Exception\<close> branch of \<^verbatim>\<open>get_chunk\<close>.\<close>

definition chunk_error :: "world \<Rightarrow> exn \<Rightarrow> HttpResponse" where
  "chunk_error w e =
     (let error_msg = str_exn w e
      in if contains error_msg ''404'' \<or> contains (lower error_msg) ''not found''
         then error_response ''Statement not found or cache expired. Re-execute query.'' GONE
         else error_response error_msg INTERNAL_SERVER_ERROR)"

definition get_chunk :: "world \<Rightarrow> DatabricksClient option \<Rightarrow> HttpRequest \<Rightarrow> run" where
  "get_chunk w g req =
     (let sid = route_params req ''statementId'';
          chunk_index_str = route_params req ''chunkIndex''
      in case sid of
           None \<Rightarrow>
             \<lparr>singleton = g, sent = [],
              returned = Inr (error_response ''Missing statementId'' BAD_REQUEST)\<rparr>
         | Some i \<Rightarrow>
             if i = [] then
               \<lparr>singleton = g, sent = [],
                returned = Inr (error_response ''Missing statementId'' BAD_REQUEST)\<rparr>
             else
               (case Option.bind chunk_index_str py_int of
                  None \<Rightarrow>
                    \<lparr>singleton = g, sent = [],
                     returned = Inr (error_response ''Invalid chunkIndex'' BAD_REQUEST)\<rparr>
                | Some idx \<Rightarrow>
                    (case get_databricks_client w g of
                       (g', Inl e) \<Rightarrow>
                         \<lparr>singleton = g', sent = [], returned = Inr (chunk_error w e)\<rparr>
                     | (g', Inr c) \<Rightarrow>
                         (case client_get_chunk w c i idx of
                            (rqs, r) \<Rightarrow>
                              \<lparr>singleton = g', sent = rqs,
                               returned =
                                 Inr (case andThen r chunk_response of
                                        Inl e \<Rightarrow> chunk_error w e
                                      | Inr resp \<Rightarrow> resp)\<rparr>))))"

subsection \<open>GET /api/query/status/\{statementId\}\<close>

definition status_response :: "StatementResult \<Rightarrow> HttpResponse" where
  "status_response result =
     (let http_status = (case STATE_TO_HTTP (state result) of None \<Rightarrow> OK | Some s \<Rightarrow> s);
          d0 = [(''statementId'', statement_id result),
                (''state'', JStr (state_value (state result)))];
          d1 = (if state result = FAILED
                then dict_set d0 ''error'' (error_message result) else d0);
          d2 = (if total_chunk_count result \<noteq> JNull
                then dict_set d1 ''totalChunks'' (total_chunk_count result) else d1);
          d3 = (if total_row_count result \<noteq> JNull
                then dict_set d2 ''totalRows'' (total_row_count result) else d2);
          d4 = (if truthy (columns result)
                then dict_set d3 ''columns'' (columns result) else d3)
      in json_response d4 http_status)"

definition get_status :: "world \<Rightarrow> DatabricksClient option \<Rightarrow> HttpRequest \<Rightarrow> run" where
  "get_status w g req =
     (case route_params req ''statementId'' of
        None \<Rightarrow>
          \<lparr>singleton = g, sent = [],
           returned = Inr (error_response ''Missing statementId'' BAD_REQUEST)\<rparr>
      | Some i \<Rightarrow>
          if i = [] then
            \<lparr>singleton = g, sent = [],
             returned = Inr (error_response ''Missing statementId'' BAD_REQUEST)\<rparr>
          else
            (case get_databricks_client w g of
               (g', Inl e) \<Rightarrow>
                 \<lparr>singleton = g', sent = [], returned = Inr (server_error w e)\<rparr>
             | (g', Inr c) \<Rightarrow>
                 (case get_statement_status w c i of
                    (rqs, r) \<Rightarrow>
                      \<lparr>singleton = g', sent = rqs,
                       returned =
                         Inr (case r of
                                Inl e \<Rightarrow> server_error w e
                              | Inr result \<Rightarrow> status_response result)\<rparr>)))"

subsection \<open>POST /api/query/cancel/\{statementId\}\<close>

definition cancel_query :: "world \<Rightarrow> DatabricksClient option \<Rightarrow> HttpRequest \<Rightarrow> run" where
  "cancel_query w g req =
     (case route_params req ''statementId'' of
        None \<Rightarrow>
          \<lparr>singleton = g, sent = [],
           returned = Inr (error_response ''Missing statementId'' BAD_REQUEST)\<rparr>
      | Some i \<Rightarrow>
          if i = [] then
            \<lparr>singleton = g, sent = [],
             returned = Inr (error_response ''Missing statementId'' BAD_REQUEST)\<rparr>
          else
            (case get_databricks_client w g of
               (g', Inl e) \<Rightarrow>
                 \<lparr>singleton = g', sent = [], returned = Inr (server_error w e)\<rparr>
             | (g', Inr c) \<Rightarrow>
                 (case cancel_statement w c i of
                    (rqs, r) \<Rightarrow>
                      \<lparr>singleton = g', sent = rqs,
                       returned =
                         Inr (case r of
                                Inl e \<Rightarrow> server_error w e
                              | Inr success \<Rightarrow>
                                  if success then json_response [(''cancelled'', JBool True)] OK
                                  else error_response ''Failed to cancel''
                                         INTERNAL_SERVER_ERROR)\<rparr>)))"

section \<open>Shapes of bodies and sample worlds\<close>

text \<open>
  The vocabulary of the statements below. \<open>field v k\<close> is the member \<open>k\<close> of an object
  (\<open>None\<close> when \<open>v\<close> is no object or has no such member) and \<open>at v ks\<close> follows a path
  of members.
\<close>

definition field :: "json \<Rightarrow> string \<Rightarrow> json option" where
  "field v k = (case v of JObj d \<Rightarrow> map_of d k | _ \<Rightarrow> None)"

fun at :: "json \<Rightarrow> string list \<Rightarrow> json option" where
  "at v [] = Some v"
| "at v (k # ks) = (case field v k of None \<Rightarrow> None | Some x \<Rightarrow> at x ks)"

definition or_default :: "json option \<Rightarrow> json \<Rightarrow> json" where
  "or_default x d = (case x of None \<Rightarrow> d | Some v \<Rightarrow> v)"









text \<open>The status code the table of the router gives a state.\<close>

definition status_of_state :: "StatementState \<Rightarrow> nat" where
  "status_of_state s = status_value (case STATE_TO_HTTP s of None \<Rightarrow> OK | Some h \<Rightarrow> h)"

text \<open>The keys of a response body, in the order they are printed.\<close>

definition keys :: "json \<Rightarrow> string list" where
  "keys v = (case v of JObj d \<Rightarrow> map fst d | _ \<Rightarrow> [])"

text \<open>The requests the client sends for a statement.\<close>

definition poll_request :: "string \<Rightarrow> http_request" where
  "poll_request sid = Request ''GET'' (''/api/2.0/sql/statements/'' @ sid) None"

definition chunk_request :: "string \<Rightarrow> int \<Rightarrow> http_request" where
  "chunk_request sid idx =
     Request ''GET'' (''/api/2.0/sql/statements/'' @ sid @ ''/result/chunks/'' @ str_int idx) None"

definition cancel_request :: "string \<Rightarrow> http_request" where
  "cancel_request sid = Request ''POST'' (''/api/2.0/sql/statements/'' @ sid @ ''/cancel'') None"

text \<open>
  Sample worlds for the concrete instances: a configured environment, a remote service
  that gives one fixed answer, and texts for the exceptions of the libraries (the status
  code and the path for an \<^verbatim>\<open>HTTPStatusError\<close>, as httpx prints them too).
\<close>

definition sample_environ :: "string \<rightharpoonup> string" where
  "sample_environ =
     map_of [(''DATABRICKS_HOST'', ''https://adb.example.net/''),
             (''DATABRICKS_TOKEN'', ''secret''),
             (''DATABRICKS_WAREHOUSE_ID'', ''wh1'')]"

fun sample_text :: "exn \<Rightarrow> string" where
  "sample_text (HTTPStatusError code rq) = ''Client error '' @ str_nat code @ '' for url '' @ path rq"
| "sample_text e = ''error''"

definition replying :: "outcome \<Rightarrow> world" where
  "replying out =
     \<lparr>environ = sample_environ, remote = (\<lambda>rq. out), exn_text = sample_text,
      value_text = (\<lambda>v. ''object'')\<rparr>"

definition unconfigured :: world where
  "unconfigured =
     \<lparr>environ = Map.empty, remote = (\<lambda>rq. Response 200 (Inr (JObj []))),
      exn_text = sample_text, value_text = (\<lambda>v. ''object'')\<rparr>"

definition sample_client :: DatabricksClient where
  "sample_client = \<lparr>host = ''https://adb.example.net'', token = ''secret'', warehouse_id = ''wh1''\<rparr>"

definition execute_request :: "json \<Rightarrow> HttpRequest" where
  "execute_request b = \<lparr>req_json = Some b, route_params = Map.empty\<rparr>"

definition statement_route :: "string \<Rightarrow> HttpRequest" where
  "statement_route sid = \<lparr>req_json = None, route_params = map_of [(''statementId'', sid)]\<rparr>"

definition chunk_route :: "string \<Rightarrow> string \<Rightarrow> HttpRequest" where
  "chunk_route sid idx =
     \<lparr>req_json = None, route_params = map_of [(''statementId'', sid), (''chunkIndex'', idx)]\<rparr>"

text \<open>The request \<^verbatim>\<open>execute_statement\<close> sends for a statement without parameters.\<close>

definition submit_request :: "DatabricksClient \<Rightarrow> json \<Rightarrow> http_request" where
  "submit_request c statement =
     Request ''POST'' ''/api/2.0/sql/statements''
       (Some (JObj [(''warehouse_id'', JStr (warehouse_id c)),
                    (''statement'', statement),
                    (''wait_timeout'', JStr ''50s''),
                    (''on_wait_timeout'', JStr ''CONTINUE''),
                    (''format'', JStr ''JSON_ARRAY'')]))"

text \<open>The body of the remote service in the scenario of the first chunk.\<close>

definition select_one_body :: json where
  "select_one_body =
     JObj [(''status'', JObj [(''state'', JStr ''SUCCEEDED'')]),
           (''result'', JObj [(''data_array'', JArr [JArr [JInt 1]])])]"

definition select_one :: HttpRequest where
  "select_one = execute_request (JObj [(''statement'', JStr ''SELECT 1'')])"

text \<open>The values of the members of \<^verbatim>\<open>StatementState\<close>.\<close>

definition state_names :: "string list" where
  "state_names = map state_value [PENDING, RUNNING, SUCCEEDED, FAILED, CANCELED, CLOSED]"

text \<open>Bodies of a status poll: a cancelled statement, and a state that does not exist.\<close>

definition canceled_body :: json where
  "canceled_body = JObj [(''status'', JObj [(''state'', JStr ''CANCELED'')])]"

definition bogus_body :: json where
  "bogus_body = JObj [(''status'', JObj [(''state'', JStr ''BOGUS'')])]"

section \<open>Normalization of Submit and Poll responses\<close>


lemma py_get_object:
  "py_get (JObj d) k dflt = Inr (or_default (map_of d k) dflt)"
  by (simp add: py_get_def or_default_def)





text \<open>
  C1. The claim: after normalization \<open>error_message\<close> is non-null exactly when the
  state is Failed, and it is "Unknown error" when a Failed response has no error object.
  One half holds on every body: a result whose state is not Failed has no message.
\<close>

lemma no_message_unless_failed:
  assumes "parse_statement_response b = Inr r" and "state r \<noteq> FAILED"
  shows "error_message r = JNull"
  using assms
  by (auto simp: parse_statement_response_def andThen_def parse_error_msg_def
      split: sum.splits if_splits)

text \<open>
  C1, the other half, fails. The default of \<^verbatim>\<open>.get("message", "Unknown error")\<close>
  covers a missing key only: a Failed response whose error object carries
  \<^verbatim>\<open>"message": null\<close> is normalized to a Failed result with no message.
\<close>

theorem failed_with_null_message:
  "parse_statement_response
     (JObj [(''status'', JObj [(''state'', JStr ''FAILED''),
                               (''error'', JObj [(''message'', JNull)])])])
   = Inr \<lparr>statement_id = JStr [], state = FAILED, total_chunk_count = JNull,
          total_row_count = JNull, columns = JNull, data = JNull, chunk_index = JNull,
          error_message = JNull\<rparr>"
  by (simp add: parse_statement_response_def andThen_def py_get_def StatementState_of_def
      parse_error_msg_def parse_columns_def py_in_def)






section \<open>The router\<close>

subsection \<open>What each handler does once the request is valid and the client exists\<close>

lemma execute_query_run:
  assumes "req_json req = Some (JObj d)"
    and "truthy (or_default (map_of d ''statement'') JNull)"
    and "get_databricks_client w g = (g', Inr c)"
  shows "execute_query w g req =
           (let x = execute_statement w c (or_default (map_of d ''statement'') JNull)
                      (or_default (map_of d ''parameters'') JNull) ''50s'' ''JSON_ARRAY''
            in \<lparr>singleton = g', sent = fst x,
                returned = Inr (case andThen (snd x) execute_response of
                                  Inl e \<Rightarrow> server_error w e
                                | Inr resp \<Rightarrow> resp)\<rparr>)"
  using assms by (simp add: execute_query_def py_get_object split: prod.splits)

lemma get_status_run:
  assumes "route_params req ''statementId'' = Some i" and "i \<noteq> []"
    and "get_databricks_client w g = (g', Inr c)"
  shows "get_status w g req =
           \<lparr>singleton = g', sent = [poll_request i],
            returned = Inr (case andThen (fetch_json w (poll_request i)) parse_statement_response of
                              Inl e \<Rightarrow> server_error w e
                            | Inr r \<Rightarrow> status_response r)\<rparr>"
  using assms by (simp add: get_status_def get_statement_status_def poll_request_def Let_def)

lemma get_chunk_run:
  assumes "route_params req ''statementId'' = Some i" and "i \<noteq> []"
    and "route_params req ''chunkIndex'' = Some s" and "py_int s = Some idx"
    and "get_databricks_client w g = (g', Inr c)"
  shows "get_chunk w g req =
           \<lparr>singleton = g', sent = fst (client_get_chunk w c i idx),
            returned = Inr (case andThen (snd (client_get_chunk w c i idx)) chunk_response of
                              Inl e \<Rightarrow> chunk_error w e
                            | Inr resp \<Rightarrow> resp)\<rparr>"
  using assms by (simp add: get_chunk_def Let_def split: prod.splits)

lemma cancel_query_run:
  assumes "route_params req ''statementId'' = Some i" and "i \<noteq> []"
    and "get_databricks_client w g = (g', Inr c)"
  shows "cancel_query w g req =
           \<lparr>singleton = g', sent = [cancel_request i],
            returned = Inr (case send w (cancel_request i) of
                              Inl e \<Rightarrow> server_error w e
                            | Inr r \<Rightarrow>
                                if fst r = 200 then json_response [(''cancelled'', JBool True)] OK
                                else error_response ''Failed to cancel'' INTERNAL_SERVER_ERROR)\<rparr>"
  using assms
  by (simp add: cancel_query_def cancel_statement_def cancel_request_def andThen_def Let_def
      split: sum.splits)

lemma replying_remote [simp]: "remote (replying out) rq = out"
  by (simp add: replying_def)

lemma replying_text [simp]: "exn_text (replying out) = sample_text"
  by (simp add: replying_def)

lemma sample_client_configured:
  "get_databricks_client (replying out) None = (Some sample_client, Inr sample_client)"
  by (simp add: get_databricks_client_def DatabricksClient_init_def replying_def
      sample_environ_def environ_get_def or_else_def rstrip_slash_def sample_client_def)

lemma execute_statement_plain:
  assumes "\<not> truthy parameters"
  shows "execute_statement w c statement parameters ''50s'' ''JSON_ARRAY'' =
           ([submit_request c statement],
            andThen (fetch_json w (submit_request c statement)) parse_statement_response)"
  using assms
  by (simp add: execute_statement_def statement_parameters_def submit_request_def Let_def)

lemma fetch_json_ok:
  assumes "remote w rq = Response code (Inr b)" and "200 \<le> code" and "code < 300"
  shows "fetch_json w rq = Inr b"
  using assms by (simp add: fetch_json_def send_def raise_for_status_def response_json_def andThen_def)

lemma select_one_normalized:
  "parse_statement_response select_one_body =
     Inr \<lparr>statement_id = JStr [], state = SUCCEEDED, total_chunk_count = JNull,
          total_row_count = JNull, columns = JNull, data = JArr [JArr [JInt 1]],
          chunk_index = JNull, error_message = JNull\<rparr>"
  by (simp add: select_one_body_def parse_statement_response_def andThen_def py_get_def
      StatementState_of_def parse_error_msg_def parse_columns_def py_in_def)

subsection \<open>Execute: the first chunk\<close>

lemma execute_response_first_chunk:
  assumes "state r = SUCCEEDED" and "data r = JArr rows"
  shows "\<exists>resp. execute_response r = Inr resp \<and> status_code resp = 200
             \<and> field (body resp) ''firstChunk'' =
                 Some (JObj [(''chunkIndex'', JInt 0), (''rowCount'', JInt (int (length rows))),
                             (''data'', JArr rows)])"
  using assms
  by (simp add: execute_response_def STATE_TO_HTTP_def Let_def py_len_def andThen_def
      dict_set_def update_conv' json_response_def field_def)

text \<open>
  C7. When the Submit call returns a Succeeded result with inline rows, the response of
  Execute is "ok" and its \<^verbatim>\<open>firstChunk\<close> holds index 0, the number of rows and the
  rows. In the scenario (statement \<^verbatim>\<open>SELECT 1\<close>, the remote service answers 200 with
  \<^verbatim>\<open>{status:{state:"SUCCEEDED"}, result:{data_array:[[1]]}}\<close>) the response is exactly
  \<^verbatim>\<open>{statementId, state, firstChunk}\<close>, the identifier being the empty default.
\<close>

theorem execute_embeds_first_chunk:
  "(req_json req = Some (JObj d)
      \<and> truthy (or_default (map_of d ''statement'') JNull)
      \<and> get_databricks_client w g = (g', Inr c)
      \<and> execute_statement w c (or_default (map_of d ''statement'') JNull)
            (or_default (map_of d ''parameters'') JNull) ''50s'' ''JSON_ARRAY'' = (rqs, Inr r)
      \<and> state r = SUCCEEDED \<and> data r = JArr rows
    \<longrightarrow> (\<exists>resp. returned (execute_query w g req) = Inr resp
            \<and> status_code resp = 200
            \<and> field (body resp) ''firstChunk'' =
                Some (JObj [(''chunkIndex'', JInt 0), (''rowCount'', JInt (int (length rows))),
                            (''data'', JArr rows)])))
   \<and> (get_databricks_client w g = (g', Inr c)
      \<and> remote w (submit_request c (JStr ''SELECT 1'')) = Response 200 (Inr select_one_body)
    \<longrightarrow> execute_query w g select_one =
          \<lparr>singleton = g', sent = [submit_request c (JStr ''SELECT 1'')],
           returned =
             Inr \<lparr>status_code = 200,
                  body = JObj [(''statementId'', JStr []),
                               (''state'', JStr ''SUCCEEDED''),
                               (''firstChunk'',
                                  JObj [(''chunkIndex'', JInt 0), (''rowCount'', JInt 1),
                                        (''data'', JArr [JArr [JInt 1]])])]\<rparr>\<rparr>)"
proof (intro conjI impI)
  assume a: "req_json req = Some (JObj d)
      \<and> truthy (or_default (map_of d ''statement'') JNull)
      \<and> get_databricks_client w g = (g', Inr c)
      \<and> execute_statement w c (or_default (map_of d ''statement'') JNull)
            (or_default (map_of d ''parameters'') JNull) ''50s'' ''JSON_ARRAY'' = (rqs, Inr r)
      \<and> state r = SUCCEEDED \<and> data r = JArr rows"
  then have run: "returned (execute_query w g req) =
      Inr (case execute_response r of Inl e \<Rightarrow> server_error w e | Inr resp \<Rightarrow> resp)"
    by (simp add: execute_query_run andThen_def)
  from a obtain resp where
    "execute_response r = Inr resp" "status_code resp = 200"
    "field (body resp) ''firstChunk'' =
       Some (JObj [(''chunkIndex'', JInt 0), (''rowCount'', JInt (int (length rows))),
                   (''data'', JArr rows)])"
    using execute_response_first_chunk [of r rows] by auto
  with run show "\<exists>resp. returned (execute_query w g req) = Inr resp
            \<and> status_code resp = 200
            \<and> field (body resp) ''firstChunk'' =
                Some (JObj [(''chunkIndex'', JInt 0), (''rowCount'', JInt (int (length rows))),
                            (''data'', JArr rows)])"
    by simp
next
  assume a: "get_databricks_client w g = (g', Inr c)
      \<and> remote w (submit_request c (JStr ''SELECT 1'')) = Response 200 (Inr select_one_body)"
  then have "fetch_json w (submit_request c (JStr ''SELECT 1'')) = Inr select_one_body"
    by (simp add: fetch_json_ok)
  with a show "execute_query w g select_one =
          \<lparr>singleton = g', sent = [submit_request c (JStr ''SELECT 1'')],
           returned =
             Inr \<lparr>status_code = 200,
                  body = JObj [(''statementId'', JStr []),
                               (''state'', JStr ''SUCCEEDED''),
                               (''firstChunk'',
                                  JObj [(''chunkIndex'', JInt 0), (''rowCount'', JInt 1),
                                        (''data'', JArr [JArr [JInt 1]])])]\<rparr>\<rparr>"
    by (simp add: execute_query_run [where d = "[(''statement'', JStr ''SELECT 1'')]"]
        select_one_def execute_request_def or_default_def execute_statement_plain andThen_def
        select_one_normalized execute_response_def STATE_TO_HTTP_def Let_def py_len_def
        dict_set_def json_response_def)
qed

theorem execute_embeds_first_chunk_witness:
  "get_databricks_client (replying (Response 200 (Inr select_one_body))) None
     = (Some sample_client, Inr sample_client)
   \<and> remote (replying (Response 200 (Inr select_one_body)))
       (submit_request sample_client (JStr ''SELECT 1'')) = Response 200 (Inr select_one_body)
   \<and> execute_query (replying (Response 200 (Inr select_one_body))) None select_one =
          \<lparr>singleton = Some sample_client,
           sent = [submit_request sample_client (JStr ''SELECT 1'')],
           returned =
             Inr \<lparr>status_code = 200,
                  body = JObj [(''statementId'', JStr []),
                               (''state'', JStr ''SUCCEEDED''),
                               (''firstChunk'',
                                  JObj [(''chunkIndex'', JInt 0), (''rowCount'', JInt 1),
                                        (''data'', JArr [JArr [JInt 1]])])]\<rparr>\<rparr>"
proof -
  let ?w = "replying (Response 200 (Inr select_one_body))"
  have client: "get_databricks_client ?w None = (Some sample_client, Inr sample_client)"
    by (rule sample_client_configured)
  have answer: "remote ?w (submit_request sample_client (JStr ''SELECT 1''))
      = Response 200 (Inr select_one_body)"
    by (simp add: replying_def)
  from execute_embeds_first_chunk [of _ _ ?w None "Some sample_client" sample_client,
      THEN conjunct2, rule_format, OF conjI [OF client answer]]
  show ?thesis using client answer by simp
qed

subsection \<open>Chunk\<close>

lemma client_get_chunk_ok:
  assumes "fetch_json w (chunk_request sid idx) = Inr (JObj d)"
  shows "client_get_chunk w c sid idx =
           ([chunk_request sid idx],
            Inr \<lparr>statement_id = JStr sid, state = SUCCEEDED, total_chunk_count = JNull,
                 total_row_count = JNull, columns = JNull,
                 data = or_default (map_of d ''data_array'') JNull,
                 chunk_index = or_default (map_of d ''chunk_index'') JNull,
                 error_message = JNull\<rparr>)"
  using assms
  by (simp add: client_get_chunk_def chunk_request_def Let_def andThen_def py_get_object)

lemma client_get_chunk_result:
  assumes "client_get_chunk w c sid idx = (rqs, Inr r)"
  shows "\<exists>d. fetch_json w (chunk_request sid idx) = Inr (JObj d)"
proof (cases "fetch_json w (chunk_request sid idx)")
  case (Inl e)
  with assms show ?thesis
    by (simp add: client_get_chunk_def chunk_request_def Let_def andThen_def)
next
  case (Inr b)
  with assms show ?thesis
    by (cases b)
       (simp_all add: client_get_chunk_def chunk_request_def Let_def andThen_def py_get_def)
qed

lemma chunk_response_rows:
  assumes "data r = JNull \<or> data r = JArr rows"
  shows "chunk_response r =
           Inr \<lparr>status_code = 200,
                body = JObj [(''chunkIndex'', chunk_index r),
                             (''rowCount'', JInt (if data r = JNull then 0 else int (length rows))),
                             (''data'', data r)]\<rparr>"
  using assms
  by (auto simp: chunk_response_def andThen_def py_len_def json_response_def)

text \<open>
  C10. A chunk request that is valid and answered with 200 and a JSON object gets "ok":
  the row count is the number of rows of \<^verbatim>\<open>data_array\<close> when that is a list, and 0
  with null data when the body has no \<^verbatim>\<open>data_array\<close>; \<^verbatim>\<open>chunkIndex\<close> is the body's
  \<^verbatim>\<open>chunk_index\<close>, null when it has none.
\<close>

theorem chunk_row_count:
  assumes "route_params req ''statementId'' = Some i" and "i \<noteq> []"
    and "route_params req ''chunkIndex'' = Some s" and "py_int s = Some idx"
    and "get_databricks_client w g = (g', Inr c)"
    and "remote w (chunk_request i idx) = Response 200 (Inr (JObj d))"
    and "map_of d ''data_array'' = None \<or> map_of d ''data_array'' = Some (JArr rows)"
  shows "returned (get_chunk w g req) =
           Inr \<lparr>status_code = 200,
                body = JObj [(''chunkIndex'', or_default (map_of d ''chunk_index'') JNull),
                             (''rowCount'',
                                JInt (if map_of d ''data_array'' = None then 0
                                      else int (length rows))),
                             (''data'', or_default (map_of d ''data_array'') JNull)]\<rparr>"
proof -
  from assms(6) have "fetch_json w (chunk_request i idx) = Inr (JObj d)"
    by (simp add: fetch_json_ok)
  then have client: "client_get_chunk w c i idx =
      ([chunk_request i idx],
       Inr \<lparr>statement_id = JStr i, state = SUCCEEDED, total_chunk_count = JNull,
            total_row_count = JNull, columns = JNull,
            data = or_default (map_of d ''data_array'') JNull,
            chunk_index = or_default (map_of d ''chunk_index'') JNull,
            error_message = JNull\<rparr>)"
    by (rule client_get_chunk_ok)
  from assms(7) show ?thesis
    by (auto simp: get_chunk_run [OF assms(1-5)] client andThen_def chunk_response_def
        or_default_def py_len_def json_response_def)
qed

lemma py_int_zero: "py_int ''0'' = Some 0"
  by (simp add: py_int_def strip_def is_space_def is_digit_def digit_val_def int_max_str_digits_def)

theorem chunk_row_count_witness:
  "route_params (chunk_route ''abc'' ''0'') ''statementId'' = Some ''abc''
   \<and> route_params (chunk_route ''abc'' ''0'') ''chunkIndex'' = Some ''0''
   \<and> py_int ''0'' = Some 0
   \<and> get_databricks_client (replying (Response 200 (Inr (JObj [])))) None
       = (Some sample_client, Inr sample_client)
   \<and> remote (replying (Response 200 (Inr (JObj [])))) (chunk_request ''abc'' 0)
       = Response 200 (Inr (JObj []))
   \<and> returned (get_chunk (replying (Response 200 (Inr (JObj [])))) None (chunk_route ''abc'' ''0''))
       = Inr \<lparr>status_code = 200,
              body = JObj [(''chunkIndex'', JNull), (''rowCount'', JInt 0), (''data'', JNull)]\<rparr>"
proof -
  let ?w = "replying (Response 200 (Inr (JObj [])))"
  have r1: "route_params (chunk_route ''abc'' ''0'') ''statementId'' = Some ''abc''"
    and r2: "route_params (chunk_route ''abc'' ''0'') ''chunkIndex'' = Some ''0''"
    by (simp_all add: chunk_route_def)
  have answer: "remote ?w (chunk_request ''abc'' 0) = Response 200 (Inr (JObj []))"
    by (simp add: replying_def)
  have shape: "map_of ([] :: (string \<times> json) list) ''data_array'' = None
      \<or> map_of ([] :: (string \<times> json) list) ''data_array'' = Some (JArr [])"
    by simp
  from chunk_row_count [OF r1 _ r2 py_int_zero sample_client_configured answer shape]
  have "returned (get_chunk ?w None (chunk_route ''abc'' ''0''))
       = Inr \<lparr>status_code = 200,
              body = JObj [(''chunkIndex'', JNull), (''rowCount'', JInt 0), (''data'', JNull)]\<rparr>"
    by (simp add: or_default_def)
  with r1 r2 py_int_zero sample_client_configured answer show ?thesis by simp
qed

lemma chunk_response_keys:
  assumes "chunk_response r = Inr resp"
  shows "status_code resp = 200 \<and> keys (body resp) = [''chunkIndex'', ''rowCount'', ''data'']"
  using assms
  by (auto simp: chunk_response_def andThen_def json_response_def keys_def split: sum.splits)

lemma chunk_error_keys: "keys (body (chunk_error w e)) = [''error'']"
  by (simp add: chunk_error_def error_response_def json_response_def keys_def Let_def)

lemma error_response_keys: "keys (body (error_response m st)) = [''error'']"
  by (simp add: error_response_def json_response_def keys_def)

lemma get_chunk_returns:
  "\<exists>resp. returned (get_chunk w g req) = Inr resp
      \<and> (keys (body resp) = [''chunkIndex'', ''rowCount'', ''data'']
         \<or> keys (body resp) = [''error''])"
proof -
  have inner: "keys (body (case andThen x chunk_response of
                             Inl e \<Rightarrow> chunk_error w e | Inr resp \<Rightarrow> resp))
                = [''chunkIndex'', ''rowCount'', ''data'']
             \<or> keys (body (case andThen x chunk_response of
                             Inl e \<Rightarrow> chunk_error w e | Inr resp \<Rightarrow> resp)) = [''error'']"
    for x
    by (cases "andThen x chunk_response")
       (auto simp: chunk_error_keys andThen_def dest: chunk_response_keys split: sum.splits)
  show ?thesis
    by (auto simp: get_chunk_def Let_def error_response_keys chunk_error_keys inner
        split: option.splits prod.splits sum.splits)
qed

text \<open>
  C6 (as amended). A FetchChunk call that returns has sent the request for exactly that
  statement and chunk, got a JSON object back, and its result is Succeeded with
  \<open>chunk_index\<close> and \<open>data\<close> the \<^verbatim>\<open>chunk_index\<close> and \<^verbatim>\<open>data_array\<close> of that
  object (null where the object has none) and with no columns, counts or message. When
  the router can build the chunk response from it, that response is "ok" with exactly the
  keys \<^verbatim>\<open>chunkIndex\<close>, \<^verbatim>\<open>rowCount\<close>, \<^verbatim>\<open>data\<close>; and whatever happens, the Chunk
  operation returns a response whose keys are these three or \<^verbatim>\<open>error\<close> alone.
\<close>

theorem fetch_chunk_result:
  "(client_get_chunk w c sid idx = (rqs, Inr r)
      \<longrightarrow> rqs = [chunk_request sid idx]
          \<and> (\<exists>d. fetch_json w (chunk_request sid idx) = Inr (JObj d)
                 \<and> chunk_index r = or_default (map_of d ''chunk_index'') JNull
                 \<and> data r = or_default (map_of d ''data_array'') JNull)
          \<and> statement_id r = JStr sid \<and> state r = SUCCEEDED
          \<and> columns r = JNull \<and> total_chunk_count r = JNull \<and> total_row_count r = JNull
          \<and> error_message r = JNull)
   \<and> (chunk_response r = Inr resp
      \<longrightarrow> status_code resp = 200
          \<and> keys (body resp) = [''chunkIndex'', ''rowCount'', ''data''])
   \<and> (\<exists>out. returned (get_chunk w g req) = Inr out
          \<and> (keys (body out) = [''chunkIndex'', ''rowCount'', ''data'']
             \<or> keys (body out) = [''error'']))"
proof (intro conjI impI)
  assume a: "client_get_chunk w c sid idx = (rqs, Inr r)"
  then obtain d where d: "fetch_json w (chunk_request sid idx) = Inr (JObj d)"
    using client_get_chunk_result by fastforce
  from a client_get_chunk_ok [OF d, of c] have
    rqs: "rqs = [chunk_request sid idx]" and
    r: "r = \<lparr>statement_id = JStr sid, state = SUCCEEDED, total_chunk_count = JNull,
                 total_row_count = JNull, columns = JNull,
                 data = or_default (map_of d ''data_array'') JNull,
                 chunk_index = or_default (map_of d ''chunk_index'') JNull,
                 error_message = JNull\<rparr>"
    by simp_all
  show "rqs = [chunk_request sid idx]" by (rule rqs)
  show "\<exists>d. fetch_json w (chunk_request sid idx) = Inr (JObj d)
                 \<and> chunk_index r = or_default (map_of d ''chunk_index'') JNull
                 \<and> data r = or_default (map_of d ''data_array'') JNull"
    using d r by simp
  show "statement_id r = JStr sid" "state r = SUCCEEDED" "columns r = JNull"
    "total_chunk_count r = JNull" "total_row_count r = JNull" "error_message r = JNull"
    using r by simp_all
next
  assume "chunk_response r = Inr resp"
  then show "status_code resp = 200" "keys (body resp) = [''chunkIndex'', ''rowCount'', ''data'']"
    using chunk_response_keys by simp_all
next
  show "\<exists>out. returned (get_chunk w g req) = Inr out
          \<and> (keys (body out) = [''chunkIndex'', ''rowCount'', ''data'']
             \<or> keys (body out) = [''error''])"
    by (rule get_chunk_returns)
qed

lemma sample_chunk_without_index:
  "client_get_chunk (replying (Response 200 (Inr (JObj [(''data_array'', JArr [JArr [JInt 1]])]))))
     sample_client ''abc'' 0
   = ([chunk_request ''abc'' 0],
      Inr \<lparr>statement_id = JStr ''abc'', state = SUCCEEDED, total_chunk_count = JNull,
           total_row_count = JNull, columns = JNull, data = JArr [JArr [JInt 1]],
           chunk_index = JNull, error_message = JNull\<rparr>)"
proof -
  have "fetch_json (replying (Response 200 (Inr (JObj [(''data_array'', JArr [JArr [JInt 1]])]))))
          (chunk_request ''abc'' 0) = Inr (JObj [(''data_array'', JArr [JArr [JInt 1]])])"
    by (simp add: fetch_json_ok replying_def)
  from client_get_chunk_ok [OF this] show ?thesis by (simp add: or_default_def)
qed

text \<open>
  C6 as stated fails: the result's \<open>chunk_index\<close> is not the index asked for but what
  the body says, so a body without \<^verbatim>\<open>chunk_index\<close> leaves it unset.
\<close>

theorem fetch_chunk_index_unset:
  "client_get_chunk (replying (Response 200 (Inr (JObj [(''data_array'', JArr [JArr [JInt 1]])]))))
     sample_client ''abc'' 0
   = ([chunk_request ''abc'' 0],
      Inr \<lparr>statement_id = JStr ''abc'', state = SUCCEEDED, total_chunk_count = JNull,
           total_row_count = JNull, columns = JNull, data = JArr [JArr [JInt 1]],
           chunk_index = JNull, error_message = JNull\<rparr>)"
  by (rule sample_chunk_without_index)

theorem fetch_chunk_result_witness:
  "client_get_chunk (replying (Response 200 (Inr (JObj [(''data_array'', JArr [JArr [JInt 1]])]))))
     sample_client ''abc'' 0
   = ([chunk_request ''abc'' 0],
      Inr \<lparr>statement_id = JStr ''abc'', state = SUCCEEDED, total_chunk_count = JNull,
           total_row_count = JNull, columns = JNull, data = JArr [JArr [JInt 1]],
           chunk_index = JNull, error_message = JNull\<rparr>)
   \<and> chunk_response \<lparr>statement_id = JStr ''abc'', state = SUCCEEDED, total_chunk_count = JNull,
           total_row_count = JNull, columns = JNull, data = JArr [JArr [JInt 1]],
           chunk_index = JNull, error_message = JNull\<rparr>
     = Inr \<lparr>status_code = 200,
            body = JObj [(''chunkIndex'', JNull), (''rowCount'', JInt 1),
                         (''data'', JArr [JArr [JInt 1]])]\<rparr>
   \<and> keys (JObj [(''chunkIndex'', JNull), (''rowCount'', JInt 1),
                  (''data'', JArr [JArr [JInt 1]])]) = [''chunkIndex'', ''rowCount'', ''data'']
   \<and> (\<exists>d. fetch_json
              (replying (Response 200 (Inr (JObj [(''data_array'', JArr [JArr [JInt 1]])]))))
              (chunk_request ''abc'' 0) = Inr (JObj d)
          \<and> or_default (map_of d ''chunk_index'') JNull = JNull
          \<and> or_default (map_of d ''data_array'') JNull = JArr [JArr [JInt 1]])"
proof -
  let ?w = "replying (Response 200 (Inr (JObj [(''data_array'', JArr [JArr [JInt 1]])])))"
  let ?r = "\<lparr>statement_id = JStr ''abc'', state = SUCCEEDED, total_chunk_count = JNull,
           total_row_count = JNull, columns = JNull, data = JArr [JArr [JInt 1]],
           chunk_index = JNull, error_message = JNull\<rparr>"
  let ?resp = "\<lparr>status_code = 200,
            body = JObj [(''chunkIndex'', JNull), (''rowCount'', JInt 1),
                         (''data'', JArr [JArr [JInt 1]])]\<rparr>"
  have built: "chunk_response ?r = Inr ?resp"
    by (simp add: chunk_response_def andThen_def py_len_def json_response_def)
  note all = fetch_chunk_result [of ?w sample_client "''abc''" 0 "[chunk_request ''abc'' 0]" ?r ?resp]
  from all [THEN conjunct2, THEN conjunct1, rule_format, OF built]
  have shape: "keys (body ?resp) = [''chunkIndex'', ''rowCount'', ''data'']" by simp
  from all [THEN conjunct1, rule_format, OF sample_chunk_without_index]
  have "\<exists>d. fetch_json ?w (chunk_request ''abc'' 0) = Inr (JObj d)
          \<and> chunk_index ?r = or_default (map_of d ''chunk_index'') JNull
          \<and> data ?r = or_default (map_of d ''data_array'') JNull" by simp
  then have "\<exists>d. fetch_json ?w (chunk_request ''abc'' 0) = Inr (JObj d)
          \<and> or_default (map_of d ''chunk_index'') JNull = JNull
          \<and> or_default (map_of d ''data_array'') JNull = JArr [JArr [JInt 1]]"
    by (elim exE conjE, intro exI conjI) simp_all
  with built shape sample_chunk_without_index show ?thesis by simp
qed

subsection \<open>Validation\<close>

lemma py_int_separator: "py_int [char_of (28::nat), CHR ''5''] = None"
  by code_simp

lemma py_int_padded: "py_int [CHR 0x09, CHR ''1'', CHR ''_'', CHR ''2'', CHR 0xA0] = Some 12"
  by code_simp

lemma filter_dropWhile_disjoint:
  assumes "\<And>x. Q x \<Longrightarrow> \<not> P x"
  shows "filter P (dropWhile Q xs) = filter P xs"
  using assms by (induction xs) auto

lemma space_is_no_digit: "is_space c \<Longrightarrow> \<not> is_digit c"
  by (auto simp: is_space_def is_digit_def Let_def)

lemma digits_of_strip: "filter is_digit (strip s) = filter is_digit s"
  by (simp add: strip_def rev_filter [symmetric] filter_dropWhile_disjoint space_is_no_digit)

lemma sign_is_no_digit: "\<not> is_digit (CHR ''-'')" "\<not> is_digit (CHR ''+'')"
  by (simp_all add: is_digit_def)

text \<open>A text with more digits than the interpreter's limit does not parse.\<close>

lemma py_int_digit_limit:
  assumes "int_max_str_digits < length (filter is_digit s)"
  shows "py_int s = None"
proof (cases "strip s")
  case Nil
  then show ?thesis by (simp add: py_int_def)
next
  case (Cons c r)
  from assms have long: "int_max_str_digits < length (filter is_digit (c # r))"
    using digits_of_strip [of s] Cons by simp
  show ?thesis
  proof (cases "c = CHR ''-'' \<or> c = CHR ''+''")
    case True
    with long have "int_max_str_digits < length (filter is_digit r)"
      by (auto simp: sign_is_no_digit)
    with True Cons show ?thesis
      by (cases r) (auto simp: py_int_def Let_def)
  next
    case False
    with long Cons show ?thesis
      by (auto simp: py_int_def Let_def)
  qed
qed

lemma py_int_minus_one: "py_int ''-1'' = Some (- 1)"
  by (simp add: py_int_def strip_def is_space_def is_digit_def digit_val_def int_max_str_digits_def)

lemma negative_chunk_index_forwarded:
  "get_chunk (replying (Response 200 (Inr (JObj [])))) None (chunk_route ''abc'' ''-1'')
   = \<lparr>singleton = Some sample_client,
      sent = [Request ''GET'' ''/api/2.0/sql/statements/abc/result/chunks/-1'' None],
      returned =
        Inr \<lparr>status_code = 200,
             body = JObj [(''chunkIndex'', JNull), (''rowCount'', JInt 0), (''data'', JNull)]\<rparr>\<rparr>"
proof -
  let ?w = "replying (Response 200 (Inr (JObj [])))"
  have rq: "chunk_request ''abc'' (- 1)
      = Request ''GET'' ''/api/2.0/sql/statements/abc/result/chunks/-1'' None"
    by code_simp
  have "fetch_json ?w (chunk_request ''abc'' (- 1)) = Inr (JObj [])"
    by (simp add: fetch_json_ok replying_def)
  from client_get_chunk_ok [OF this, of sample_client] show ?thesis
    by (simp add: get_chunk_run [where i = "''abc''" and s = "''-1''" and idx = "- 1"
          and g' = "Some sample_client" and c = sample_client]
        chunk_route_def py_int_minus_one sample_client_configured rq andThen_def
        chunk_response_def or_default_def json_response_def)
qed

text \<open>
  C4 as stated fails for the chunk index: \<^verbatim>\<open>int("-1")\<close> parses, the router asks for
  nothing more, and the request for chunk \<open>-1\<close> goes out to the remote service.
\<close>

theorem negative_chunk_index_reaches_remote:
  "py_int ''-1'' = Some (- 1)
   \<and> get_chunk (replying (Response 200 (Inr (JObj [])))) None (chunk_route ''abc'' ''-1'')
     = \<lparr>singleton = Some sample_client,
        sent = [Request ''GET'' ''/api/2.0/sql/statements/abc/result/chunks/-1'' None],
        returned =
          Inr \<lparr>status_code = 200,
               body = JObj [(''chunkIndex'', JNull), (''rowCount'', JInt 0), (''data'', JNull)]\<rparr>\<rparr>"
  using py_int_minus_one negative_chunk_index_forwarded by simp

text \<open>
  C4 (as amended). An Execute request whose body is not JSON, or is a JSON object
  without a statement that counts as true, and a Chunk request whose statement id is
  missing or empty or whose chunk index is missing or does not parse as an integer, get
  "bad request"; nothing is sent and the client is not even looked up (the module's
  \<^verbatim>\<open>_client\<close> is as before).
\<close>

theorem invalid_request_is_rejected:
  "(req_json req = None
      \<or> (\<exists>d. req_json req = Some (JObj d) \<and> \<not> truthy (or_default (map_of d ''statement'') JNull))
    \<longrightarrow> (\<exists>resp. execute_query w g req = \<lparr>singleton = g, sent = [], returned = Inr resp\<rparr>
            \<and> status_code resp = 400 \<and> keys (body resp) = [''error'']))
   \<and> (route_params req ''statementId'' = None \<or> route_params req ''statementId'' = Some []
      \<or> Option.bind (route_params req ''chunkIndex'') py_int = None
    \<longrightarrow> (\<exists>resp. get_chunk w g req = \<lparr>singleton = g, sent = [], returned = Inr resp\<rparr>
            \<and> status_code resp = 400 \<and> keys (body resp) = [''error'']))"
proof (intro conjI impI)
  assume "req_json req = None
      \<or> (\<exists>d. req_json req = Some (JObj d) \<and> \<not> truthy (or_default (map_of d ''statement'') JNull))"
  then show "\<exists>resp. execute_query w g req = \<lparr>singleton = g, sent = [], returned = Inr resp\<rparr>
            \<and> status_code resp = 400 \<and> keys (body resp) = [''error'']"
    by (auto simp: execute_query_def py_get_object error_response_def json_response_def keys_def)
next
  assume "route_params req ''statementId'' = None \<or> route_params req ''statementId'' = Some []
      \<or> Option.bind (route_params req ''chunkIndex'') py_int = None"
  then show "\<exists>resp. get_chunk w g req = \<lparr>singleton = g, sent = [], returned = Inr resp\<rparr>
            \<and> status_code resp = 400 \<and> keys (body resp) = [''error'']"
    by (auto simp: get_chunk_def Let_def error_response_def json_response_def keys_def
        split: option.splits)
qed

lemma py_int_word: "py_int ''first'' = None"
  by (simp add: py_int_def strip_def is_space_def is_digit_def digit_val_def int_max_str_digits_def)

theorem invalid_request_is_rejected_witness:
  "req_json (execute_request (JObj [(''statement'', JStr [])])) = Some (JObj [(''statement'', JStr [])])
   \<and> \<not> truthy (or_default (map_of [(''statement'', JStr [])] ''statement'') JNull)
   \<and> (\<exists>resp. execute_query (replying (Response 200 (Inr (JObj [])))) None
                (execute_request (JObj [(''statement'', JStr [])]))
              = \<lparr>singleton = None, sent = [], returned = Inr resp\<rparr>
            \<and> status_code resp = 400 \<and> keys (body resp) = [''error''])
   \<and> Option.bind (route_params (chunk_route ''abc'' ''first'') ''chunkIndex'') py_int = None
   \<and> (\<exists>resp. get_chunk (replying (Response 200 (Inr (JObj [])))) None (chunk_route ''abc'' ''first'')
              = \<lparr>singleton = None, sent = [], returned = Inr resp\<rparr>
            \<and> status_code resp = 400 \<and> keys (body resp) = [''error''])
   \<and> Option.bind (route_params (chunk_route ''abc'' [char_of (28::nat), CHR ''5'']) ''chunkIndex'')
         py_int = None
   \<and> (\<exists>resp. get_chunk (replying (Response 200 (Inr (JObj [])))) None
                (chunk_route ''abc'' [char_of (28::nat), CHR ''5''])
              = \<lparr>singleton = None, sent = [], returned = Inr resp\<rparr>
            \<and> status_code resp = 400 \<and> keys (body resp) = [''error''])"
proof -
  let ?w = "replying (Response 200 (Inr (JObj [])))"
  let ?e = "execute_request (JObj [(''statement'', JStr [])])"
  let ?c = "chunk_route ''abc'' ''first''"
  let ?s = "chunk_route ''abc'' [char_of (28::nat), CHR ''5'']"
  have e1: "req_json ?e = Some (JObj [(''statement'', JStr [])])"
    by (simp add: execute_request_def)
  have e2: "\<not> truthy (or_default (map_of [(''statement'', JStr [])] ''statement'') JNull)"
    by (simp add: or_default_def)
  have c1: "Option.bind (route_params ?c ''chunkIndex'') py_int = None"
    by (simp add: chunk_route_def py_int_word)
  have s1: "Option.bind (route_params ?s ''chunkIndex'') py_int = None"
    by (simp add: chunk_route_def py_int_separator)
  from e1 e2 have pre: "req_json ?e = None
      \<or> (\<exists>d. req_json ?e = Some (JObj d) \<and> \<not> truthy (or_default (map_of d ''statement'') JNull))"
    by (intro disjI2 exI conjI)
  from invalid_request_is_rejected [of ?e ?w None, THEN conjunct1, rule_format, OF pre]
  have r1: "\<exists>resp. execute_query ?w None ?e = \<lparr>singleton = None, sent = [], returned = Inr resp\<rparr>
            \<and> status_code resp = 400 \<and> keys (body resp) = [''error'']" .
  from c1 have pre2: "route_params ?c ''statementId'' = None \<or> route_params ?c ''statementId'' = Some []
      \<or> Option.bind (route_params ?c ''chunkIndex'') py_int = None"
    by (intro disjI2)
  from invalid_request_is_rejected [of ?c ?w None, THEN conjunct2, rule_format, OF pre2]
  have r2: "\<exists>resp. get_chunk ?w None ?c = \<lparr>singleton = None, sent = [], returned = Inr resp\<rparr>
            \<and> status_code resp = 400 \<and> keys (body resp) = [''error'']" .
  from s1 have pre3: "route_params ?s ''statementId'' = None \<or> route_params ?s ''statementId'' = Some []
      \<or> Option.bind (route_params ?s ''chunkIndex'') py_int = None"
    by (intro disjI2)
  from invalid_request_is_rejected [of ?s ?w None, THEN conjunct2, rule_format, OF pre3]
  have r3: "\<exists>resp. get_chunk ?w None ?s = \<lparr>singleton = None, sent = [], returned = Inr resp\<rparr>
            \<and> status_code resp = 400 \<and> keys (body resp) = [''error'']" .
  from e1 e2 r1 c1 r2 s1 r3 show ?thesis by (intro conjI)
qed

subsection \<open>Not found\<close>

lemma fetch_json_status_error:
  assumes "remote w rq = Response code content" and "\<not> (200 \<le> code \<and> code < 300)"
  shows "fetch_json w rq = Inl (HTTPStatusError code rq)"
  using assms by (auto simp: fetch_json_def send_def raise_for_status_def andThen_def)

lemma poll_failure_is_server_error:
  assumes "route_params req ''statementId'' = Some i" and "i \<noteq> []"
    and "get_databricks_client w g = (g', Inr c)"
    and "fetch_json w (poll_request i) = Inl e"
  shows "returned (get_status w g req) = Inr (error_response (str_exn w e) INTERNAL_SERVER_ERROR)"
  using assms by (simp add: get_status_run andThen_def server_error_def)

lemma sample_not_found_text:
  "sample_text (HTTPStatusError 404 (poll_request ''abc''))
     = ''Client error 404 for url /api/2.0/sql/statements/abc''"
  "sample_text (HTTPStatusError 404 (chunk_request ''abc'' 0))
     = ''Client error 404 for url /api/2.0/sql/statements/abc/result/chunks/0''"
  by code_simp+

lemma sample_not_found_is_matched:
  "contains ''Client error 404 for url /api/2.0/sql/statements/abc/result/chunks/0'' ''404''"
  by code_simp

text \<open>
  C5 fails for Poll. A 404 of the remote service on a chunk fetch is answered "gone"
  with the instruction to re-execute; the same 404 on a status poll falls into the
  blanket handler of \<^verbatim>\<open>get_status\<close> and is answered "server error" with the raw text
  of the exception.
\<close>

theorem poll_not_found_is_server_error:
  "returned (get_status (replying (Response 404 (Inl ''Not Found''))) None (statement_route ''abc''))
     = Inr \<lparr>status_code = 500,
            body = JObj [(''error'', JStr ''Client error 404 for url /api/2.0/sql/statements/abc'')]\<rparr>
   \<and> returned (get_chunk (replying (Response 404 (Inl ''Not Found''))) None (chunk_route ''abc'' ''0''))
     = Inr \<lparr>status_code = 410,
            body = JObj [(''error'',
                          JStr ''Statement not found or cache expired. Re-execute query.'')]\<rparr>"
proof -
  let ?w = "replying (Response 404 (Inl ''Not Found''))"
  have wording: "exn_text ?w = sample_text" by (simp add: replying_def)
  have "fetch_json ?w (poll_request ''abc'') = Inl (HTTPStatusError 404 (poll_request ''abc''))"
    by (rule fetch_json_status_error [where content = "Inl ''Not Found''"])
       (simp_all add: replying_def)
  then have poll: "returned (get_status ?w None (statement_route ''abc''))
     = Inr \<lparr>status_code = 500,
            body = JObj [(''error'', JStr ''Client error 404 for url /api/2.0/sql/statements/abc'')]\<rparr>"
    by (simp add: poll_failure_is_server_error [where i = "''abc''" and g' = "Some sample_client"
          and c = sample_client]
        statement_route_def sample_client_configured wording sample_not_found_text
        error_response_def json_response_def del: sample_text.simps)
  have "fetch_json ?w (chunk_request ''abc'' 0) = Inl (HTTPStatusError 404 (chunk_request ''abc'' 0))"
    by (rule fetch_json_status_error [where content = "Inl ''Not Found''"])
       (simp_all add: replying_def)
  then have "client_get_chunk ?w sample_client ''abc'' 0
      = ([chunk_request ''abc'' 0], Inl (HTTPStatusError 404 (chunk_request ''abc'' 0)))"
    by (simp add: client_get_chunk_def chunk_request_def Let_def andThen_def)
  then have chunk: "returned (get_chunk ?w None (chunk_route ''abc'' ''0''))
     = Inr \<lparr>status_code = 410,
            body = JObj [(''error'',
                          JStr ''Statement not found or cache expired. Re-execute query.'')]\<rparr>"
    by (simp add: get_chunk_run [where i = "''abc''" and s = "''0''" and idx = 0
          and g' = "Some sample_client" and c = sample_client]
        chunk_route_def py_int_zero sample_client_configured andThen_def chunk_error_def
        wording sample_not_found_text sample_not_found_is_matched
        error_response_def json_response_def del: contains.simps sample_text.simps)
  from poll chunk show ?thesis by (intro conjI)
qed

subsection \<open>Cancel\<close>

lemma cancel_statement_answered:
  assumes "remote w (cancel_request sid) = Response code content"
  shows "cancel_statement w c sid = ([cancel_request sid], Inr (code = 200))"
  using assms
  by (simp add: cancel_statement_def cancel_request_def send_def andThen_def Let_def)

lemma cancel_refused_sample:
  "cancel_query (replying (Response 404 (Inl ''Not Found''))) None (statement_route ''abc'')
   = \<lparr>singleton = Some sample_client, sent = [cancel_request ''abc''],
      returned = Inr \<lparr>status_code = 500, body = JObj [(''error'', JStr ''Failed to cancel'')]\<rparr>\<rparr>"
  by (simp add: cancel_query_run [where i = "''abc''" and g' = "Some sample_client"
          and c = sample_client]
      statement_route_def sample_client_configured send_def
      error_response_def json_response_def)

text \<open>
  C8 as stated fails at the router: a cancellation the remote service answers with a
  status other than 200 is reported to the caller as "server error" with
  \<^verbatim>\<open>{"error": "Failed to cancel"}\<close>; no response ever says \<^verbatim>\<open>cancelled: false\<close>.
\<close>

theorem cancel_refused_is_server_error:
  "cancel_statement (replying (Response 404 (Inl ''Not Found''))) sample_client ''abc''
     = ([cancel_request ''abc''], Inr False)
   \<and> cancel_query (replying (Response 404 (Inl ''Not Found''))) None (statement_route ''abc'')
     = \<lparr>singleton = Some sample_client, sent = [cancel_request ''abc''],
        returned = Inr \<lparr>status_code = 500, body = JObj [(''error'', JStr ''Failed to cancel'')]\<rparr>\<rparr>"
  using cancel_statement_answered [of "replying (Response 404 (Inl ''Not Found''))" "''abc''" 404
      "Inl ''Not Found''" sample_client]
    cancel_refused_sample
  by (simp add: replying_def)

text \<open>
  C8 (as amended). Whenever the remote service answers at all, \<^verbatim>\<open>cancel_statement\<close>
  returns without raising, and returns true exactly for status 200. The router reports
  true as \<^verbatim>\<open>{"cancelled": true}\<close> with "ok" and false as "server error" with
  \<^verbatim>\<open>{"error": "Failed to cancel"}\<close>.
\<close>

theorem cancel_outcome:
  "(remote w (cancel_request sid) = Response code content
      \<longrightarrow> cancel_statement w c sid = ([cancel_request sid], Inr (code = 200)))
   \<and> (route_params req ''statementId'' = Some sid \<and> sid \<noteq> []
      \<and> get_databricks_client w g = (g', Inr c)
      \<and> remote w (cancel_request sid) = Response code content
      \<longrightarrow> cancel_query w g req =
            \<lparr>singleton = g', sent = [cancel_request sid],
             returned =
               Inr (if code = 200
                    then \<lparr>status_code = 200, body = JObj [(''cancelled'', JBool True)]\<rparr>
                    else \<lparr>status_code = 500,
                          body = JObj [(''error'', JStr ''Failed to cancel'')]\<rparr>)\<rparr>)"
  by (auto simp: cancel_statement_answered cancel_query_run send_def error_response_def
      json_response_def)

theorem cancel_outcome_witness:
  "remote (replying (Response 500 (Inl ''busy''))) (cancel_request ''abc'')
     = Response 500 (Inl ''busy'')
   \<and> route_params (statement_route ''abc'') ''statementId'' = Some ''abc''
   \<and> get_databricks_client (replying (Response 500 (Inl ''busy''))) None
       = (Some sample_client, Inr sample_client)
   \<and> cancel_statement (replying (Response 500 (Inl ''busy''))) sample_client ''abc''
       = ([cancel_request ''abc''], Inr False)
   \<and> cancel_query (replying (Response 500 (Inl ''busy''))) None (statement_route ''abc'')
       = \<lparr>singleton = Some sample_client, sent = [cancel_request ''abc''],
          returned = Inr \<lparr>status_code = 500, body = JObj [(''error'', JStr ''Failed to cancel'')]\<rparr>\<rparr>"
proof -
  let ?w = "replying (Response 500 (Inl ''busy''))"
  have answer: "remote ?w (cancel_request ''abc'') = Response 500 (Inl ''busy'')"
    by (simp add: replying_def)
  have route: "route_params (statement_route ''abc'') ''statementId'' = Some ''abc''"
    by (simp add: statement_route_def)
  have nonempty: "''abc'' \<noteq> []" by simp
  note both = cancel_outcome [of ?w "''abc''" 500 "Inl ''busy''" sample_client
      "statement_route ''abc''" None "Some sample_client"]
  from both [THEN conjunct1, rule_format, OF answer]
  have client: "cancel_statement ?w sample_client ''abc'' = ([cancel_request ''abc''], Inr False)"
    by simp
  from both [THEN conjunct2, rule_format,
      OF conjI [OF route conjI [OF nonempty conjI [OF sample_client_configured answer]]]]
  have router: "cancel_query ?w None (statement_route ''abc'')
       = \<lparr>singleton = Some sample_client, sent = [cancel_request ''abc''],
          returned = Inr \<lparr>status_code = 500, body = JObj [(''error'', JStr ''Failed to cancel'')]\<rparr>\<rparr>"
    by simp
  from answer route sample_client_configured client router show ?thesis by (intro conjI)
qed

subsection \<open>Configuration\<close>

lemma init_without_config:
  assumes "environ w ''DATABRICKS_HOST'' = None \<or> environ w ''DATABRICKS_TOKEN'' = None
           \<or> environ w ''DATABRICKS_WAREHOUSE_ID'' = None"
  shows "DatabricksClient_init w None None None = Inl (ValueError missing_config_message)"
  using assms
  by (auto simp: DatabricksClient_init_def environ_get_def or_else_def rstrip_slash_def Let_def)

lemma client_without_config:
  assumes "environ w ''DATABRICKS_HOST'' = None \<or> environ w ''DATABRICKS_TOKEN'' = None
           \<or> environ w ''DATABRICKS_WAREHOUSE_ID'' = None"
  shows "get_databricks_client w None = (None, Inl (ValueError missing_config_message))"
  by (simp add: get_databricks_client_def init_without_config [OF assms])

lemma config_message_is_no_not_found:
  "\<not> contains missing_config_message ''404''"
  "\<not> contains (lower missing_config_message) ''not found''"
  by code_simp+

lemma chunk_error_config:
  "chunk_error w (ValueError missing_config_message)
     = error_response missing_config_message INTERNAL_SERVER_ERROR"
  by (simp add: chunk_error_def config_message_is_no_not_found)

lemma unconfigured_sample:
  "execute_query unconfigured None select_one
   = \<lparr>singleton = None, sent = [],
      returned = Inr \<lparr>status_code = 500, body = JObj [(''error'', JStr missing_config_message)]\<rparr>\<rparr>"
proof -
  have "get_databricks_client unconfigured None = (None, Inl (ValueError missing_config_message))"
    by (rule client_without_config) (simp add: unconfigured_def)
  then show ?thesis
    by (simp add: execute_query_def select_one_def execute_request_def py_get_def
        server_error_def error_response_def json_response_def)
qed

text \<open>
  C9 as stated fails: nothing reads the configuration before the first request. With
  an empty environment the module loads, a request is served, and the missing
  configuration comes back as that request's "server error".
\<close>

theorem missing_config_served_per_request:
  "environ unconfigured ''DATABRICKS_HOST'' = None
   \<and> execute_query unconfigured None select_one
     = \<lparr>singleton = None, sent = [],
        returned = Inr \<lparr>status_code = 500,
                        body = JObj [(''error'', JStr missing_config_message)]\<rparr>\<rparr>"
  using unconfigured_sample by (simp add: unconfigured_def)

text \<open>
  C9 (as amended). When a required variable is absent, constructing the client raises.
  The client is constructed on the first request that passes validation, so each such
  request, on any of the four routes, is answered "server error" with the configuration
  message, sends nothing, and leaves \<^verbatim>\<open>_client\<close> unset for the next request.
\<close>

theorem missing_config_outcome:
  assumes "environ w ''DATABRICKS_HOST'' = None \<or> environ w ''DATABRICKS_TOKEN'' = None
           \<or> environ w ''DATABRICKS_WAREHOUSE_ID'' = None"
  shows "DatabricksClient_init w None None None = Inl (ValueError missing_config_message)
   \<and> (req_json req = Some (JObj d) \<and> truthy (or_default (map_of d ''statement'') JNull)
      \<longrightarrow> execute_query w None req =
            \<lparr>singleton = None, sent = [],
             returned = Inr (error_response missing_config_message INTERNAL_SERVER_ERROR)\<rparr>)
   \<and> (route_params req ''statementId'' = Some sid \<and> sid \<noteq> []
      \<longrightarrow> get_status w None req =
            \<lparr>singleton = None, sent = [],
             returned = Inr (error_response missing_config_message INTERNAL_SERVER_ERROR)\<rparr>
          \<and> cancel_query w None req =
            \<lparr>singleton = None, sent = [],
             returned = Inr (error_response missing_config_message INTERNAL_SERVER_ERROR)\<rparr>)
   \<and> (route_params req ''statementId'' = Some sid \<and> sid \<noteq> []
      \<and> Option.bind (route_params req ''chunkIndex'') py_int = Some idx
      \<longrightarrow> get_chunk w None req =
            \<lparr>singleton = None, sent = [],
             returned = Inr (error_response missing_config_message INTERNAL_SERVER_ERROR)\<rparr>)"
proof -
  note client = client_without_config [OF assms]
  show ?thesis
    by (auto simp: init_without_config [OF assms] client execute_query_def get_status_def
        cancel_query_def get_chunk_def py_get_object server_error_def chunk_error_config Let_def)
qed

theorem missing_config_outcome_witness:
  "environ unconfigured ''DATABRICKS_HOST'' = None
   \<and> req_json select_one = Some (JObj [(''statement'', JStr ''SELECT 1'')])
   \<and> truthy (or_default (map_of [(''statement'', JStr ''SELECT 1'')] ''statement'') JNull)
   \<and> DatabricksClient_init unconfigured None None None = Inl (ValueError missing_config_message)
   \<and> execute_query unconfigured None select_one =
        \<lparr>singleton = None, sent = [],
         returned = Inr (error_response missing_config_message INTERNAL_SERVER_ERROR)\<rparr>"
proof -
  have absent: "environ unconfigured ''DATABRICKS_HOST'' = None"
    by (simp add: unconfigured_def)
  then have pre: "environ unconfigured ''DATABRICKS_HOST'' = None
      \<or> environ unconfigured ''DATABRICKS_TOKEN'' = None
      \<or> environ unconfigured ''DATABRICKS_WAREHOUSE_ID'' = None"
    by (rule disjI1)
  have valid: "req_json select_one = Some (JObj [(''statement'', JStr ''SELECT 1'')])"
    "truthy (or_default (map_of [(''statement'', JStr ''SELECT 1'')] ''statement'') JNull)"
    by (simp_all add: select_one_def execute_request_def or_default_def)
  note all = missing_config_outcome [OF pre, of select_one "[(''statement'', JStr ''SELECT 1'')]"]
  from all have init: "DatabricksClient_init unconfigured None None None
      = Inl (ValueError missing_config_message)"
    by (rule conjunct1)
  from all [THEN conjunct2, THEN conjunct1, rule_format, OF conjI [OF valid]]
  have served: "execute_query unconfigured None select_one =
        \<lparr>singleton = None, sent = [],
         returned = Inr (error_response missing_config_message INTERNAL_SERVER_ERROR)\<rparr>" .
  from absent valid init served show ?thesis by (intro conjI)
qed

subsection \<open>The table from states to statuses\<close>

lemma status_of_state_table:
  "status_of_state PENDING = 202" "status_of_state RUNNING = 202"
  "status_of_state SUCCEEDED = 200" "status_of_state FAILED = 500"
  "status_of_state CANCELED = 410" "status_of_state CLOSED = 410"
  by (simp_all add: status_of_state_def STATE_TO_HTTP_def)

lemma STATE_TO_HTTP_total: "STATE_TO_HTTP s \<noteq> None"
  by (cases s) (simp_all add: STATE_TO_HTTP_def)

lemma status_response_code: "status_code (status_response r) = status_of_state (state r)"
  by (simp add: status_response_def json_response_def status_of_state_def Let_def)

lemma status_response_error:
  assumes "state r = FAILED"
  shows "field (body (status_response r)) ''error'' = Some (error_message r)"
  using assms
  by (simp add: status_response_def Let_def json_response_def field_def dict_set_def update_conv')

lemma execute_response_code:
  assumes "data r = JNull \<or> data r = JArr rows"
  shows "\<exists>resp. execute_response r = Inr resp
           \<and> status_code resp = status_of_state (state r)
           \<and> (state r = FAILED \<longrightarrow> field (body resp) ''error'' = Some (error_message r))"
proof (cases "state r = FAILED")
  case True
  then show ?thesis
    by (simp add: execute_response_def Let_def json_response_def field_def dict_set_def
        status_of_state_table)
next
  case False
  with assms show ?thesis
    by (auto simp: execute_response_def Let_def json_response_def status_of_state_def
        py_len_def andThen_def)
qed

lemma StatementState_of_unrecognized:
  assumes "s \<notin> set state_names"
  shows "StatementState_of (JStr s) = Inl (NotAMember (JStr s))"
  using assms by (simp add: StatementState_of_def state_names_def)

lemma parse_unrecognized:
  assumes "at b [''status'', ''state''] = Some v" and "StatementState_of v = Inl e"
  shows "parse_statement_response b = Inl e"
proof -
  from assms(1) obtain st where st: "field b ''status'' = Some st" and v: "field st ''state'' = Some v"
    by (auto split: option.splits)
  from st obtain d where b: "b = JObj d" and d: "map_of d ''status'' = Some st"
    by (cases b) (simp_all add: field_def)
  from v obtain sd where sd: "st = JObj sd" and sv: "map_of sd ''state'' = Some v"
    by (cases st) (simp_all add: field_def)
  from assms(2) show ?thesis
    by (simp add: parse_statement_response_def b d sd sv py_get_def andThen_def)
qed

lemma execute_statement_sent:
  assumes "execute_statement w c st ps a f = ([rq], res)"
  shows "res = andThen (fetch_json w rq) parse_statement_response"
  using assms by (auto simp: execute_statement_def Let_def split: sum.splits)

text \<open>
  C2. The table gives each of the six states its status: Pending and Running 202,
  Succeeded 200, Failed 500, Canceled and Closed 410; it has an entry for every state,
  so the default of \<^verbatim>\<open>STATE_TO_HTTP.get\<close> is never taken. Status answers every result
  of the client with the status of its state, Execute does so whenever the result's data
  is null or a list, and a Failed result has its message under \<^verbatim>\<open>error\<close>. A state
  string that is no member's value makes normalization raise, and both handlers answer
  that with "server error" and the text of the exception: no state is made up for it.
\<close>

theorem state_to_status_mapping:
  "status_of_state PENDING = 202 \<and> status_of_state RUNNING = 202
   \<and> status_of_state SUCCEEDED = 200 \<and> status_of_state FAILED = 500
   \<and> status_of_state CANCELED = 410 \<and> status_of_state CLOSED = 410
   \<and> (\<exists>h. STATE_TO_HTTP st = Some h)
   \<and> (route_params req ''statementId'' = Some sid \<and> sid \<noteq> []
      \<and> get_databricks_client w g = (g', Inr c)
      \<and> get_statement_status w c sid = (rqs, Inr r)
      \<longrightarrow> (\<exists>resp. returned (get_status w g req) = Inr resp
             \<and> status_code resp = status_of_state (state r)
             \<and> (state r = FAILED \<longrightarrow> field (body resp) ''error'' = Some (error_message r))))
   \<and> (req_json req = Some (JObj d) \<and> truthy (or_default (map_of d ''statement'') JNull)
      \<and> get_databricks_client w g = (g', Inr c)
      \<and> execute_statement w c (or_default (map_of d ''statement'') JNull)
            (or_default (map_of d ''parameters'') JNull) ''50s'' ''JSON_ARRAY'' = (rqs, Inr r)
      \<and> (data r = JNull \<or> data r = JArr rows)
      \<longrightarrow> (\<exists>resp. returned (execute_query w g req) = Inr resp
             \<and> status_code resp = status_of_state (state r)
             \<and> (state r = FAILED \<longrightarrow> field (body resp) ''error'' = Some (error_message r))))
   \<and> (at b [''status'', ''state''] = Some (JStr s) \<and> s \<notin> set state_names
      \<longrightarrow> parse_statement_response b = Inl (NotAMember (JStr s)))
   \<and> (route_params req ''statementId'' = Some sid \<and> sid \<noteq> []
      \<and> get_databricks_client w g = (g', Inr c)
      \<and> fetch_json w (poll_request sid) = Inr b
      \<and> at b [''status'', ''state''] = Some (JStr s) \<and> s \<notin> set state_names
      \<longrightarrow> returned (get_status w g req)
            = Inr (error_response (exn_text w (NotAMember (JStr s))) INTERNAL_SERVER_ERROR))
   \<and> (req_json req = Some (JObj d) \<and> truthy (or_default (map_of d ''statement'') JNull)
      \<and> get_databricks_client w g = (g', Inr c)
      \<and> execute_statement w c (or_default (map_of d ''statement'') JNull)
            (or_default (map_of d ''parameters'') JNull) ''50s'' ''JSON_ARRAY'' = ([rq], res)
      \<and> fetch_json w rq = Inr b
      \<and> at b [''status'', ''state''] = Some (JStr s) \<and> s \<notin> set state_names
      \<longrightarrow> returned (execute_query w g req)
            = Inr (error_response (exn_text w (NotAMember (JStr s))) INTERNAL_SERVER_ERROR))"
proof -
  have total: "\<exists>h. STATE_TO_HTTP st = Some h"
    using STATE_TO_HTTP_total [of st] by (cases "STATE_TO_HTTP st") simp_all
  have poll: "\<exists>resp. returned (get_status w g req) = Inr resp
             \<and> status_code resp = status_of_state (state r)
             \<and> (state r = FAILED \<longrightarrow> field (body resp) ''error'' = Some (error_message r))"
    if "route_params req ''statementId'' = Some sid \<and> sid \<noteq> []
      \<and> get_databricks_client w g = (g', Inr c)
      \<and> get_statement_status w c sid = (rqs, Inr r)"
    using that
    by (auto simp: get_status_def status_response_code status_response_error)
  have submit: "\<exists>resp. returned (execute_query w g req) = Inr resp
             \<and> status_code resp = status_of_state (state r)
             \<and> (state r = FAILED \<longrightarrow> field (body resp) ''error'' = Some (error_message r))"
    if a: "req_json req = Some (JObj d) \<and> truthy (or_default (map_of d ''statement'') JNull)
      \<and> get_databricks_client w g = (g', Inr c)
      \<and> execute_statement w c (or_default (map_of d ''statement'') JNull)
            (or_default (map_of d ''parameters'') JNull) ''50s'' ''JSON_ARRAY'' = (rqs, Inr r)
      \<and> (data r = JNull \<or> data r = JArr rows)"
  proof -
    from a have "data r = JNull \<or> data r = JArr rows" by simp
    from execute_response_code [OF this] obtain resp where
      "execute_response r = Inr resp" "status_code resp = status_of_state (state r)"
      "state r = FAILED \<longrightarrow> field (body resp) ''error'' = Some (error_message r)"
      by auto
    with a show ?thesis by (simp add: execute_query_run andThen_def)
  qed
  have unknown: "parse_statement_response b = Inl (NotAMember (JStr s))"
    if "at b [''status'', ''state''] = Some (JStr s) \<and> s \<notin> set state_names"
    using that parse_unrecognized [of b "JStr s"] StatementState_of_unrecognized [of s] by simp
  have poll_unknown: "returned (get_status w g req)
            = Inr (error_response (exn_text w (NotAMember (JStr s))) INTERNAL_SERVER_ERROR)"
    if a: "route_params req ''statementId'' = Some sid \<and> sid \<noteq> []
      \<and> get_databricks_client w g = (g', Inr c)
      \<and> fetch_json w (poll_request sid) = Inr b
      \<and> at b [''status'', ''state''] = Some (JStr s) \<and> s \<notin> set state_names"
  proof -
    from a have "parse_statement_response b = Inl (NotAMember (JStr s))" by (simp add: unknown)
    with a show ?thesis by (simp add: get_status_run andThen_def server_error_def)
  qed
  have submit_unknown: "returned (execute_query w g req)
            = Inr (error_response (exn_text w (NotAMember (JStr s))) INTERNAL_SERVER_ERROR)"
    if a: "req_json req = Some (JObj d) \<and> truthy (or_default (map_of d ''statement'') JNull)
      \<and> get_databricks_client w g = (g', Inr c)
      \<and> execute_statement w c (or_default (map_of d ''statement'') JNull)
            (or_default (map_of d ''parameters'') JNull) ''50s'' ''JSON_ARRAY'' = ([rq], res)
      \<and> fetch_json w rq = Inr b
      \<and> at b [''status'', ''state''] = Some (JStr s) \<and> s \<notin> set state_names"
  proof -
    from a have failed: "parse_statement_response b = Inl (NotAMember (JStr s))"
      by (simp add: unknown)
    from a have "execute_statement w c (or_default (map_of d ''statement'') JNull)
            (or_default (map_of d ''parameters'') JNull) ''50s'' ''JSON_ARRAY'' = ([rq], res)"
      by simp
    then have "res = andThen (fetch_json w rq) parse_statement_response"
      by (rule execute_statement_sent)
    with a failed have "res = Inl (NotAMember (JStr s))" by (simp add: andThen_def)
    with a show ?thesis by (simp add: execute_query_run andThen_def server_error_def)
  qed
  show ?thesis
    apply (intro conjI)
               apply (rule status_of_state_table)+
         apply (rule total)
        apply (rule impI, erule poll)
       apply (rule impI, erule submit)
      apply (rule impI, erule unknown)
     apply (rule impI, erule poll_unknown)
    apply (rule impI, erule submit_unknown)
    done
qed

lemma canceled_normalized:
  "parse_statement_response canceled_body =
     Inr \<lparr>statement_id = JStr [], state = CANCELED, total_chunk_count = JNull,
          total_row_count = JNull, columns = JNull, data = JNull,
          chunk_index = JNull, error_message = JNull\<rparr>"
  by (simp add: canceled_body_def parse_statement_response_def andThen_def py_get_def
      StatementState_of_def parse_error_msg_def parse_columns_def py_in_def)

theorem state_to_status_mapping_witness:
  "route_params (statement_route ''abc'') ''statementId'' = Some ''abc''
   \<and> get_databricks_client (replying (Response 200 (Inr canceled_body))) None
       = (Some sample_client, Inr sample_client)
   \<and> get_statement_status (replying (Response 200 (Inr canceled_body))) sample_client ''abc''
       = ([poll_request ''abc''],
          Inr \<lparr>statement_id = JStr [], state = CANCELED, total_chunk_count = JNull,
               total_row_count = JNull, columns = JNull, data = JNull,
               chunk_index = JNull, error_message = JNull\<rparr>)
   \<and> (\<exists>resp. returned (get_status (replying (Response 200 (Inr canceled_body))) None
                         (statement_route ''abc'')) = Inr resp
          \<and> status_code resp = 410)
   \<and> fetch_json (replying (Response 200 (Inr bogus_body))) (poll_request ''abc'') = Inr bogus_body
   \<and> at bogus_body [''status'', ''state''] = Some (JStr ''BOGUS'')
   \<and> ''BOGUS'' \<notin> set state_names
   \<and> parse_statement_response bogus_body = Inl (NotAMember (JStr ''BOGUS''))
   \<and> returned (get_status (replying (Response 200 (Inr bogus_body))) None (statement_route ''abc''))
       = Inr \<lparr>status_code = 500, body = JObj [(''error'', JStr ''error'')]\<rparr>"
proof -
  let ?w = "replying (Response 200 (Inr canceled_body))"
  let ?v = "replying (Response 200 (Inr bogus_body))"
  let ?r = "\<lparr>statement_id = JStr [], state = CANCELED, total_chunk_count = JNull,
               total_row_count = JNull, columns = JNull, data = JNull,
               chunk_index = JNull, error_message = JNull\<rparr>"
  have route: "route_params (statement_route ''abc'') ''statementId'' = Some ''abc''"
    by (simp add: statement_route_def)
  have nonempty: "''abc'' \<noteq> []" by simp
  have polled: "get_statement_status ?w sample_client ''abc'' = ([poll_request ''abc''], Inr ?r)"
    by (simp add: get_statement_status_def poll_request_def fetch_json_ok andThen_def
        canceled_normalized)
  have fetched: "fetch_json ?v (poll_request ''abc'') = Inr bogus_body"
    by (simp add: fetch_json_ok)
  have state: "at bogus_body [''status'', ''state''] = Some (JStr ''BOGUS'')"
    by (simp add: bogus_body_def field_def)
  have bogus: "''BOGUS'' \<notin> set state_names"
    by (simp add: state_names_def)
  note table = state_to_status_mapping [where st = CANCELED and req = "statement_route ''abc''"
      and sid = "''abc''" and w = ?w and g = None and g' = "Some sample_client"
      and c = sample_client and rqs = "[poll_request ''abc'']" and r = ?r]
  from table have gone: "status_of_state CANCELED = 410" by simp
  have pre: "route_params (statement_route ''abc'') ''statementId'' = Some ''abc'' \<and> ''abc'' \<noteq> []
      \<and> get_databricks_client ?w None = (Some sample_client, Inr sample_client)
      \<and> get_statement_status ?w sample_client ''abc'' = ([poll_request ''abc''], Inr ?r)"
    using route nonempty sample_client_configured polled by (intro conjI)
  from table [THEN conjunct2, THEN conjunct2, THEN conjunct2, THEN conjunct2, THEN conjunct2, THEN conjunct2, THEN conjunct2, THEN conjunct1, rule_format, OF pre] gone
  have mapped: "\<exists>resp. returned (get_status ?w None (statement_route ''abc'')) = Inr resp
          \<and> status_code resp = 410"
    by auto
  note fails = state_to_status_mapping [where req = "statement_route ''abc''"
      and sid = "''abc''" and w = ?v and g = None and g' = "Some sample_client"
      and c = sample_client and b = bogus_body and s = "''BOGUS''"]
  have unknown: "at bogus_body [''status'', ''state''] = Some (JStr ''BOGUS'')
      \<and> ''BOGUS'' \<notin> set state_names"
    using state bogus by (intro conjI)
  from fails [THEN conjunct2, THEN conjunct2, THEN conjunct2, THEN conjunct2, THEN conjunct2, THEN conjunct2, THEN conjunct2, THEN conjunct2, THEN conjunct2, THEN conjunct1, rule_format, OF unknown]
  have raised: "parse_statement_response bogus_body = Inl (NotAMember (JStr ''BOGUS''))" .
  have pre2: "route_params (statement_route ''abc'') ''statementId'' = Some ''abc'' \<and> ''abc'' \<noteq> []
      \<and> get_databricks_client ?v None = (Some sample_client, Inr sample_client)
      \<and> fetch_json ?v (poll_request ''abc'') = Inr bogus_body
      \<and> at bogus_body [''status'', ''state''] = Some (JStr ''BOGUS'') \<and> ''BOGUS'' \<notin> set state_names"
    using route nonempty sample_client_configured fetched state bogus by (intro conjI)
  from fails [THEN conjunct2, THEN conjunct2, THEN conjunct2, THEN conjunct2, THEN conjunct2, THEN conjunct2, THEN conjunct2, THEN conjunct2, THEN conjunct2, THEN conjunct2, THEN conjunct1, rule_format, OF pre2]
  have failed: "returned (get_status ?v None (statement_route ''abc''))
       = Inr \<lparr>status_code = 500, body = JObj [(''error'', JStr ''error'')]\<rparr>"
    by (simp add: error_response_def json_response_def)
  from route sample_client_configured polled mapped fetched state bogus raised failed
  show ?thesis by (intro conjI)
qed

end
